theory Spec2Isabelle
  imports Main
begin

section \<open>Python strings\<close>

text \<open>
  A Python \<^verbatim>\<open>str\<close> is a sequence of Unicode code points. The texts of the chatbot hold
  code points beyond ASCII (U+2011, U+2013, U+2020, U+202F, U+3010, U+3011), so a string
  is a list of code points, not a list of bytes. ASCII text is written as a literal
  under \<open>ascii\<close>; any other code point is written as its number.
\<close>

type_synonym pystr = "nat list"

definition ascii :: "string \<Rightarrow> pystr" where
  "ascii s = map of_char s"

text \<open>The exceptions the modelled code can raise.\<close>

datatype error = KeyError | IndexError | OverflowError | UnsupportedPattern

text \<open>
  \<^verbatim>\<open>str.lower\<close> and \<^verbatim>\<open>str.title\<close> on text with code points beyond ASCII follow the case
  tables of the Unicode database of the Python runtime, which is not part of the
  program: they are parameters of the model. On ASCII text both are modelled in full.
\<close>

record unicode_ops =
  lower_beyond_ascii :: "pystr \<Rightarrow> pystr"
  title_beyond_ascii :: "pystr \<Rightarrow> pystr"

definition is_ascii :: "pystr \<Rightarrow> bool" where
  "is_ascii s = list_all (\<lambda>c. c < 128) s"

definition lower_ascii :: "nat \<Rightarrow> nat" where
  "lower_ascii c = (if 65 \<le> c \<and> c \<le> 90 then c + 32 else c)"

definition upper_ascii :: "nat \<Rightarrow> nat" where
  "upper_ascii c = (if 97 \<le> c \<and> c \<le> 122 then c - 32 else c)"

definition is_cased_ascii :: "nat \<Rightarrow> bool" where
  "is_cased_ascii c = ((65 \<le> c \<and> c \<le> 90) \<or> (97 \<le> c \<and> c \<le> 122))"

definition lower :: "unicode_ops \<Rightarrow> pystr \<Rightarrow> pystr" where
  "lower U s = (if is_ascii s then map lower_ascii s else lower_beyond_ascii U s)"

text \<open>
  \<^verbatim>\<open>str.title\<close>: a cased character that follows an uncased one (or starts the string)
  is upper-cased, a cased character that follows a cased one is lower-cased.
\<close>

fun title_ascii :: "bool \<Rightarrow> pystr \<Rightarrow> pystr" where
  "title_ascii previous_is_cased [] = []"
| "title_ascii previous_is_cased (c # cs) =
     (if previous_is_cased then lower_ascii c else upper_ascii c)
       # title_ascii (is_cased_ascii c) cs"

definition title :: "unicode_ops \<Rightarrow> pystr \<Rightarrow> pystr" where
  "title U s = (if is_ascii s then title_ascii False s else title_beyond_ascii U s)"

text \<open>\<^verbatim>\<open>sub in s\<close>: \<open>sub\<close> occurs in \<open>s\<close> as a contiguous run.\<close>

fun starts_with :: "pystr \<Rightarrow> pystr \<Rightarrow> bool" where
  "starts_with [] s = True"
| "starts_with (p # ps) [] = False"
| "starts_with (p # ps) (c # cs) = (p = c \<and> starts_with ps cs)"

fun py_in :: "pystr \<Rightarrow> pystr \<Rightarrow> bool" where
  "py_in sub [] = (sub = [])"
| "py_in sub (c # cs) = (starts_with sub (c # cs) \<or> py_in sub cs)"

text \<open>\<^verbatim>\<open>s.replace(old, new)\<close> for one-character \<open>old\<close> and \<open>new\<close>.\<close>

definition replace_char :: "nat \<Rightarrow> nat \<Rightarrow> pystr \<Rightarrow> pystr" where
  "replace_char old new s = map (\<lambda>c. if c = old then new else c) s"

text \<open>\<^verbatim>\<open>s.split(sep)\<close> for a one-character separator: never the empty list.\<close>

fun split_char :: "nat \<Rightarrow> pystr \<Rightarrow> pystr list" where
  "split_char sep [] = [[]]"
| "split_char sep (c # cs) =
     (if c = sep then [] # split_char sep cs
      else (case split_char sep cs of
              [] \<Rightarrow> [[c]]
            | w # ws \<Rightarrow> (c # w) # ws))"

text \<open>\<^verbatim>\<open>sep.join(xs)\<close>.\<close>

fun join :: "pystr \<Rightarrow> pystr list \<Rightarrow> pystr" where
  "join sep [] = []"
| "join sep [x] = x"
| "join sep (x # y # ys) = x @ sep @ join sep (y # ys)"

text \<open>\<^verbatim>\<open>any(word in q for word in words)\<close>.\<close>

definition any_in :: "pystr list \<Rightarrow> pystr \<Rightarrow> bool" where
  "any_in words q = list_ex (\<lambda>word. py_in word q) words"

text \<open>
  \<^verbatim>\<open>re.search(pattern, s)\<close> as a truth value, for the patterns the program builds:
  literal characters and the alternation bar. A pattern with any other regular
  expression metacharacter is outside the model and reported as such. With no flag
  given a literal matches itself only, so an alternation of literals is found in \<open>s\<close>
  exactly when one of the alternatives occurs in \<open>s\<close>.
\<close>

definition re_metacharacters :: pystr where
  "re_metacharacters = ascii ''.^$*+?{}[]()'' @ [92]"

definition re_search :: "pystr \<Rightarrow> pystr \<Rightarrow> error + bool" where
  "re_search pattern s =
     (if list_ex (\<lambda>c. c \<in> set re_metacharacters) pattern then Inl UnsupportedPattern
      else Inr (list_ex (\<lambda>alternative. py_in alternative s) (split_char 124 pattern)))"

section \<open>Knowledge base\<close>

record plan =
  premium :: int
  description :: pystr
  coverage :: "pystr list"
  limits :: "(pystr \<times> int) list"

text \<open>
  Both tables are Python dictionaries read in insertion order, so they are association
  lists; their keys are distinct.
\<close>

definition ctpl_definition :: pystr where
  "ctpl_definition =
     ascii ''**Compulsory Third Party Liability (CTPL)** is the only form of '' @
     ascii ''car insurance required by law in the Philippines.  It pays for '' @
     ascii ''injuries or death you cause to someone outside your vehicle '' @
     [8211] @
     ascii '' for example a pedestrian, passenger in another car or a non'' @
     [8209] @
     ascii ''family member.  The LTO requires CTPL before a vehicle can be '' @
     ascii ''registered and a standard policy typically covers up to PHP'' @
     [8239] @
     ascii ''100,000'' @
     [12304] @
     ascii ''388055955070738'' @
     [8224] @
     ascii ''L96-L110'' @
     [12305] @
     ascii ''.''"

definition own_damage_definition :: pystr where
  "own_damage_definition =
     ascii ''**Own Damage** coverage pays to repair or replace your vehicle '' @
     ascii ''if it is damaged or stolen.  It is optional but strongly '' @
     ascii ''recommended because CTPL only covers third parties and will not '' @
     ascii ''pay for your own car'' @
     [12304] @
     ascii ''88305912757905'' @
     [8224] @
     ascii ''L115-L136'' @
     [12305] @
     ascii ''.  Policies often have a deductible you must pay before the '' @
     ascii ''insurer covers the remaining cost.''"

definition acts_of_god_definition :: pystr where
  "acts_of_god_definition =
     ascii ''**Acts of God (Acts of Nature)** coverage protects you from '' @
     ascii ''losses caused by natural calamities such as typhoons, floods or '' @
     ascii ''earthquakes'' @
     [12304] @
     ascii ''88305912757905'' @
     [8224] @
     ascii ''L138-L150'' @
     [12305] @
     ascii ''.  Some policies cover volcanic eruptions and landslides as well'' @
     [12304] @
     ascii ''388055955070738'' @
     [8224] @
     ascii ''L188-L204'' @
     [12305] @
     ascii ''.  Acts of God coverage is usually an optional add'' @
     [8209] @
     ascii ''on and costs vary by vehicle value.''"

definition personal_accident_definition :: pystr where
  "personal_accident_definition =
     ascii ''**Personal Accident** coverage pays for medical expenses, '' @
     ascii ''disability benefits and accidental death benefits for the '' @
     ascii ''driver and passengers of the insured vehicle'' @
     [12304] @
     ascii ''88305912757905'' @
     [8224] @
     ascii ''L153-L161'' @
     [12305] @
     ascii ''.  Some policies specify a fixed benefit per passenger while '' @
     ascii ''others provide a lump sum.''"

definition malicious_mischief_definition :: pystr where
  "malicious_mischief_definition =
     ascii ''**Acts of Malicious Mischief** coverage pays to repair your car '' @
     ascii ''if it is intentionally damaged by someone else.  Examples '' @
     ascii ''include vandalism, keying the paint or damage caused by riots '' @
     ascii ''or civil unrest'' @
     [12304] @
     ascii ''88305912757905'' @
     [8224] @
     ascii ''L163-L172'' @
     [12305] @
     ascii ''.''"

definition roadside_assistance_definition :: pystr where
  "roadside_assistance_definition =
     ascii ''**Roadside Assistance** covers services such as towing, fuel '' @
     ascii ''delivery and jump'' @
     [8209] @
     ascii ''starting your vehicle when it breaks down.  Some policies also '' @
     ascii ''include emergency medical evacuation'' @
     [12304] @
     ascii ''88305912757905'' @
     [8224] @
     ascii ''L174-L181'' @
     [12305] @
     ascii ''.''"

definition loss_of_use_definition :: pystr where
  "loss_of_use_definition =
     ascii ''**Loss of Use** coverage reimburses you for the cost of renting '' @
     ascii ''a replacement vehicle while your insured car is being repaired '' @
     ascii ''due to a covered accident or theft'' @
     [12304] @
     ascii ''88305912757905'' @
     [8224] @
     ascii ''L184-L191'' @
     [12305] @
     ascii ''.  Policies specify daily and maximum limits.''"

definition COVERAGE_DEFINITIONS :: "(pystr \<times> pystr) list" where
  "COVERAGE_DEFINITIONS =
    [(ascii ''ctpl'', ctpl_definition),
     (ascii ''own damage'', own_damage_definition),
     (ascii ''acts of god'', acts_of_god_definition),
     (ascii ''personal accident'', personal_accident_definition),
     (ascii ''malicious mischief'', malicious_mischief_definition),
     (ascii ''roadside assistance'', roadside_assistance_definition),
     (ascii ''loss of use'', loss_of_use_definition)]"

definition basic_description :: pystr where
  "basic_description =
     ascii ''Our entry'' @
     [8209] @
     ascii ''level plan provides legally required CTPL protection and offers '' @
     ascii ''affordable peace of mind for budget'' @
     [8209] @
     ascii ''conscious drivers.''"

definition standard_description :: pystr where
  "standard_description =
     ascii ''A balanced plan that adds own damage and Acts of God coverage '' @
     ascii ''on top of CTPL.  Ideal for drivers who want broader protection '' @
     ascii ''without paying for all the bells and whistles.''"

definition premium_description :: pystr where
  "premium_description =
     ascii ''Our most comprehensive plan which includes all available '' @
     ascii ''coverage types.  Perfect for new or high'' @
     [8209] @
     ascii ''value vehicles and for owners who want maximum peace of mind.''"

definition POLICY_PLANS :: "(pystr \<times> plan) list" where
  "POLICY_PLANS =
    [(ascii ''Basic'',
      \<lparr>premium = 1800,
       description = basic_description,
       coverage = [ascii ''ctpl''],
       limits = [(ascii ''ctpl'', 100000)]\<rparr>),
     (ascii ''Standard'',
      \<lparr>premium = 7500,
       description = standard_description,
       coverage = [ascii ''ctpl'',
         ascii ''own damage'',
         ascii ''acts of god''],
       limits = [(ascii ''ctpl'', 100000),
         (ascii ''own damage'', 400000),
         (ascii ''acts of god'', 300000)]\<rparr>),
     (ascii ''Premium'',
      \<lparr>premium = 14000,
       description = premium_description,
       coverage = [ascii ''ctpl'',
         ascii ''own damage'',
         ascii ''acts of god'',
         ascii ''personal accident'',
         ascii ''malicious mischief'',
         ascii ''roadside assistance'',
         ascii ''loss of use''],
       limits = [(ascii ''ctpl'', 100000),
         (ascii ''own damage'', 800000),
         (ascii ''acts of god'', 600000),
         (ascii ''personal accident'', 200000),
         (ascii ''malicious mischief'', 300000),
         (ascii ''roadside assistance'', 0),
         (ascii ''loss of use'', 2500)]\<rparr>)]"

section \<open>Formatter\<close>

text \<open>
  \<^verbatim>\<open>f"PHP<U+202F>{amount:,.0f}"\<close>, where \<open><U+202F>\<close> stands for the one code point
  U+202F (narrow no-break space) of the source text. The presentation type \<open>f\<close> makes Python convert the
  integer to a float first (53 bits of mantissa, rounded to nearest, ties to even;
  OverflowError from \<open>2 ^ 1024 - 2 ^ 970\<close> on), then print the float with no decimals
  and a comma between groups of three digits. The float of an integer is itself an
  integer, so the conversion is computed on integers.
\<close>

fun bit_length :: "nat \<Rightarrow> nat" where
  "bit_length n = (if n = 0 then 0 else Suc (bit_length (n div 2)))"

declare bit_length.simps [simp del]

definition float_of_int :: "int \<Rightarrow> error + int" where
  "float_of_int n =
     (let a = nat \<bar>n\<bar>;
          k = bit_length a - 53;
          m = a div 2 ^ k;
          r = a mod 2 ^ k;
          m' = (if 2 ^ k < 2 * r \<or> (2 * r = 2 ^ k \<and> odd m) then m + 1 else m);
          v = m' * 2 ^ k
      in if 2 ^ 1024 \<le> v then Inl OverflowError else Inr (sgn n * int v))"

fun decimal :: "nat \<Rightarrow> pystr" where
  "decimal n = (if n < 10 then [48 + n] else decimal (n div 10) @ [48 + n mod 10])"

declare decimal.simps [simp del]

text \<open>Grouping works from the right: on the reversed digits, a comma after every third.\<close>

fun group3 :: "pystr \<Rightarrow> pystr" where
  "group3 (a # b # c # d # ds) = a # b # c # 44 # group3 (d # ds)"
| "group3 ds = ds"

definition thousands :: "pystr \<Rightarrow> pystr" where
  "thousands ds = rev (group3 (rev ds))"

definition format_comma_f0 :: "int \<Rightarrow> pystr" where
  "format_comma_f0 v = (if v < 0 then ascii ''-'' else []) @ thousands (decimal (nat \<bar>v\<bar>))"

definition format_currency :: "int \<Rightarrow> error + pystr" where
  "format_currency amount =
     (case float_of_int amount of
        Inl e \<Rightarrow> Inl e
      | Inr v \<Rightarrow> Inr (ascii ''PHP'' @ [8239] @ format_comma_f0 v))"

text \<open>\<^verbatim>\<open>c.title() if c != "ctpl" else "CTPL"\<close>, written twice in \<^verbatim>\<open>plan_info\<close>.\<close>

definition coverage_title :: "unicode_ops \<Rightarrow> pystr \<Rightarrow> pystr" where
  "coverage_title U c = (if c \<noteq> ascii ''ctpl'' then title U c else ascii ''CTPL'')"

text \<open>The body of the loop over \<^verbatim>\<open>plan["limits"].items()\<close>: the line it appends.\<close>

definition limit_line :: "unicode_ops \<Rightarrow> pystr \<Rightarrow> int \<Rightarrow> error + pystr" where
  "limit_line U cov limit =
     (if cov = ascii ''roadside assistance'' then
        Inr (ascii ''Roadside assistance: service included'')
      else if cov = ascii ''loss of use'' then
        (case format_currency limit of
           Inl e \<Rightarrow> Inl e
         | Inr amount \<Rightarrow>
             Inr (ascii ''Loss of use: reimbursed up to '' @ amount @ ascii '' per day''))
      else
        (case format_currency limit of
           Inl e \<Rightarrow> Inl e
         | Inr amount \<Rightarrow>
             Inr (coverage_title U cov @ ascii '': '' @ amount @ ascii '' limit'')))"

fun limit_lines_loop ::
  "unicode_ops \<Rightarrow> pystr list \<Rightarrow> (pystr \<times> int) list \<Rightarrow> error + pystr list" where
  "limit_lines_loop U limit_lines [] = Inr limit_lines"
| "limit_lines_loop U limit_lines ((cov, limit) # rest) =
     (case limit_line U cov limit of
        Inl e \<Rightarrow> Inl e
      | Inr line \<Rightarrow> limit_lines_loop U (limit_lines @ [line]) rest)"

definition plan_info :: "unicode_ops \<Rightarrow> pystr \<Rightarrow> error + pystr" where
  "plan_info U plan_name =
     (case map_of POLICY_PLANS plan_name of
        None \<Rightarrow> Inl KeyError
      | Some plan \<Rightarrow>
          (let header = [ascii ''**'' @ plan_name @ ascii '' Plan**'', description plan, []];
               coverage_list = map (coverage_title U) (coverage plan);
               included =
                 ascii ''Included coverage: '' @ join (ascii '', '') coverage_list @ ascii ''.''
           in case format_currency (premium plan) of
                Inl e \<Rightarrow> Inl e
              | Inr amount \<Rightarrow>
                  (case limit_lines_loop U [] (limits plan) of
                     Inl e \<Rightarrow> Inl e
                   | Inr limit_lines \<Rightarrow>
                       Inr (join [10]
                         (header @
                          [included,
                           ascii ''Annual premium: '' @ amount @ ascii ''.'',
                           ascii ''Coverage limits: '' @ join (ascii ''; '') limit_lines
                             @ ascii ''.''])))))"

section \<open>Responder\<close>

text \<open>
  The first loop of \<^verbatim>\<open>answer_question\<close>: the definition of the first coverage key
  whose pattern is found in \<open>q\<close>, \<open>None\<close> when the loop runs to its end. The pattern is
  the key with every space replaced by the alternation bar.
\<close>

fun definitions_loop :: "(pystr \<times> pystr) list \<Rightarrow> pystr \<Rightarrow> error + pystr option" where
  "definitions_loop [] q = Inr None"
| "definitions_loop ((cov_key, definition) # rest) q =
     (case re_search (replace_char 32 124 cov_key) q of
        Inl e \<Rightarrow> Inl e
      | Inr found \<Rightarrow>
          if found then Inr (Some definition) else definitions_loop rest q)"

text \<open>The second loop: the first plan name whose lower-cased form occurs in \<open>q\<close>.\<close>

fun plans_loop :: "unicode_ops \<Rightarrow> pystr list \<Rightarrow> pystr \<Rightarrow> pystr option" where
  "plans_loop U [] q = None"
| "plans_loop U (plan_name # rest) q =
     (if py_in (lower U plan_name) q then Some plan_name else plans_loop U rest q)"

text \<open>The loop of the pricing answer: one line per plan.\<close>

fun premium_lines_loop :: "pystr list \<Rightarrow> (pystr \<times> plan) list \<Rightarrow> error + pystr list" where
  "premium_lines_loop lines [] = Inr lines"
| "premium_lines_loop lines ((name, plan) # rest) =
     (case format_currency (premium plan) of
        Inl e \<Rightarrow> Inl e
      | Inr amount \<Rightarrow>
          premium_lines_loop
            (lines @ [ascii ''- **'' @ name @ ascii '' Plan**: '' @ amount]) rest)"

definition pricing_answer :: "error + pystr" where
  "pricing_answer =
     (case premium_lines_loop
             [ascii ''Here are the annual premiums for our available plans:'']
             POLICY_PLANS of
        Inl e \<Rightarrow> Inl e
      | Inr lines \<Rightarrow>
          Inr (join [10]
            (lines @ [[10] @ ascii ''Ask about a specific plan to see what it covers.''])))"

text \<open>
  The loop of the coverage overview: \<^verbatim>\<open>definition.split(".")[0] + "."\<close> behind a
  bullet. Indexing an empty list would raise IndexError.
\<close>

fun summary_lines_loop :: "pystr list \<Rightarrow> (pystr \<times> pystr) list \<Rightarrow> error + pystr list" where
  "summary_lines_loop lines [] = Inr lines"
| "summary_lines_loop lines ((cov_key, definition) # rest) =
     (case split_char 46 definition of
        [] \<Rightarrow> Inl IndexError
      | first # _ \<Rightarrow>
          summary_lines_loop (lines @ [ascii ''- '' @ (first @ ascii ''.'')]) rest)"

definition overview_answer :: "error + pystr" where
  "overview_answer =
     (case summary_lines_loop
             [ascii ''We offer several types of coverage.  Here'' @ [39] @
              ascii ''s a quick overview:'']
             COVERAGE_DEFINITIONS of
        Inl e \<Rightarrow> Inl e
      | Inr lines \<Rightarrow>
          Inr (join [10]
            (lines @
             [[10] @ ascii ''You can ask about any of these coverage types for more '' @
              ascii ''information or inquire about a specific plan.''])))"

definition fallback_answer :: pystr where
  "fallback_answer =
     ascii ''I'' @ [39] @ ascii ''m sorry, I don'' @ [39] @
     ascii ''t have an answer to that yet.  You can ask me about car '' @
     ascii ''insurance coverage, premiums or one of our plans (Basic, '' @
     ascii ''Standard or Premium).''"

definition answer_question :: "unicode_ops \<Rightarrow> pystr \<Rightarrow> error + pystr" where
  "answer_question U question =
     (let q = lower U question in
      case definitions_loop COVERAGE_DEFINITIONS q of
        Inl e \<Rightarrow> Inl e
      | Inr (Some definition) \<Rightarrow> Inr definition
      | Inr None \<Rightarrow>
          (case plans_loop U (map fst POLICY_PLANS) q of
             Some plan_name \<Rightarrow> plan_info U plan_name
           | None \<Rightarrow>
               if any_in [ascii ''price'', ascii ''cost'', ascii ''premium'', ascii ''rates''] q
               then pricing_answer
               else if any_in [ascii ''coverage'', ascii ''covered'', ascii ''benefits''] q
               then overview_answer
               else Inr fallback_answer))"

section \<open>Notions of the specification\<close>

text \<open>
  The keys the program turns into patterns hold no regular expression metacharacter and
  no alternation bar; on such a key the pattern is found exactly when one of the key's
  space-separated fragments occurs in the text.
\<close>

definition plain_key :: "pystr \<Rightarrow> bool" where
  "plain_key key = list_all (\<lambda>c. c \<notin> set re_metacharacters \<and> c \<noteq> 124) key"

definition fragment_match :: "pystr \<Rightarrow> pystr \<Rightarrow> bool" where
  "fragment_match key q = list_ex (\<lambda>fragment. py_in fragment q) (split_char 32 key)"

text \<open>
  The four matching categories, as predicates on the lower-cased question \<open>q\<close>: the first
  definition whose key has a fragment in \<open>q\<close>, the first plan whose lower-cased name is
  in \<open>q\<close>, a pricing word in \<open>q\<close>, a coverage word in \<open>q\<close>.
\<close>

definition coverage_definition_category :: "pystr \<Rightarrow> pystr option" where
  "coverage_definition_category q =
     map_option snd (find (\<lambda>(key, text). fragment_match key q) COVERAGE_DEFINITIONS)"

definition plan_name_category :: "unicode_ops \<Rightarrow> pystr \<Rightarrow> pystr option" where
  "plan_name_category U q = find (\<lambda>name. py_in (lower U name) q) (map fst POLICY_PLANS)"

definition pricing_category :: "pystr \<Rightarrow> bool" where
  "pricing_category q =
     (py_in (ascii ''price'') q \<or> py_in (ascii ''cost'') q \<or>
      py_in (ascii ''premium'') q \<or> py_in (ascii ''rates'') q)"

definition overview_category :: "pystr \<Rightarrow> bool" where
  "overview_category q =
     (py_in (ascii ''coverage'') q \<or> py_in (ascii ''covered'') q \<or>
      py_in (ascii ''benefits'') q)"

text \<open>
  The plain first sentence of a text: the text up to and including its first full stop.
\<close>

definition first_sentence :: "pystr \<Rightarrow> pystr" where
  "first_sentence body = take (Suc (length (takeWhile (\<lambda>c. c \<noteq> 46) body))) body"

text \<open>
  A runtime whose case tables leave text beyond ASCII as it is. It stands for the
  parameter in concrete examples, whose questions are ASCII text, for which the choice
  does not matter.
\<close>

definition plain_unicode :: unicode_ops where
  "plain_unicode = \<lparr>lower_beyond_ascii = (\<lambda>s. s), title_beyond_ascii = (\<lambda>s. s)\<rparr>"

text \<open>The number a string of decimal digits stands for.\<close>

definition digits_value :: "pystr \<Rightarrow> nat" where
  "digits_value ds = foldl (\<lambda>v d. 10 * v + (d - 48)) 0 ds"

text \<open>
  A limit clause as the description renders it: a fixed text for roadside assistance,
  the daily amount for loss of use, and otherwise the title of the coverage with its
  limit. The formatted amount is what \<open>format_currency\<close> returns.
\<close>

definition limit_clause :: "unicode_ops \<Rightarrow> pystr \<times> int \<Rightarrow> pystr" where
  "limit_clause U =
     (\<lambda>(cov, limit).
        if cov = ascii ''roadside assistance'' then
          ascii ''Roadside assistance: service included''
        else if cov = ascii ''loss of use'' then
          ascii ''Loss of use: reimbursed up to '' @ projr (format_currency limit) @
          ascii '' per day''
        else
          coverage_title U cov @ ascii '': '' @ projr (format_currency limit) @
          ascii '' limit'')"

section \<open>Facts about the string operations\<close>

lemma ascii_eq_iff [simp]: "ascii s = ascii t \<longleftrightarrow> s = t"
proof -
  have "inj (of_char :: char \<Rightarrow> nat)" by (rule injI) simp
  then show ?thesis by (simp add: ascii_def inj_map_eq_map)
qed

lemma starts_with_iff: "starts_with sub s \<longleftrightarrow> (\<exists>t. s = sub @ t)"
  by (induction sub s rule: starts_with.induct) auto

lemma py_in_iff: "py_in sub s \<longleftrightarrow> (\<exists>l r. s = l @ sub @ r)"
proof (induction s)
  case Nil
  show ?case by auto
next
  case (Cons c cs)
  show ?case
  proof
    assume "py_in sub (c # cs)"
    then consider "starts_with sub (c # cs)" | "py_in sub cs" by auto
    then show "\<exists>l r. c # cs = l @ sub @ r"
    proof cases
      case 1
      then obtain t where "c # cs = sub @ t" using starts_with_iff by blast
      then have "c # cs = [] @ sub @ t" by simp
      then show ?thesis by blast
    next
      case 2
      then obtain l r where "cs = l @ sub @ r" using Cons.IH by blast
      then have "c # cs = (c # l) @ sub @ r" by simp
      then show ?thesis by blast
    qed
  next
    assume "\<exists>l r. c # cs = l @ sub @ r"
    then obtain l r where eq: "c # cs = l @ sub @ r" by blast
    show "py_in sub (c # cs)"
    proof (cases l)
      case Nil
      with eq have "starts_with sub (c # cs)" using starts_with_iff by auto
      then show ?thesis by simp
    next
      case (Cons a l')
      with eq have "cs = l' @ sub @ r" by simp
      then have "py_in sub cs" using Cons.IH by blast
      then show ?thesis by simp
    qed
  qed
qed

lemma split_char_not_Nil: "split_char sep s \<noteq> []"
  by (induction s) (auto split: list.splits)

lemma split_char_first: "\<exists>rest. split_char sep s = takeWhile (\<lambda>c. c \<noteq> sep) s # rest"
  by (induction s) (auto split: list.splits)

lemma split_char_replace:
  "new \<notin> set s \<Longrightarrow> split_char new (replace_char old new s) = split_char old s"
  by (induction s) (auto simp: replace_char_def split: list.splits)

lemma bar_not_meta: "124 \<notin> set re_metacharacters"
  by (simp add: re_metacharacters_def ascii_def)

lemma re_search_plain_key:
  assumes "plain_key key"
  shows "re_search (replace_char 32 124 key) q = Inr (fragment_match key q)"
proof -
  from assms have no_bar: "124 \<notin> set key"
    by (auto simp: plain_key_def list_all_iff)
  from assms have "\<forall>c \<in> set (replace_char 32 124 key). c \<notin> set re_metacharacters"
    using bar_not_meta by (auto simp: plain_key_def list_all_iff replace_char_def)
  then have "\<not> list_ex (\<lambda>c. c \<in> set re_metacharacters) (replace_char 32 124 key)"
    by (simp add: list_ex_iff)
  then show ?thesis
    using split_char_replace [OF no_bar, of 32]
    by (simp add: re_search_def fragment_match_def)
qed

lemma definitions_loop_find:
  assumes "list_all (\<lambda>(key, text). plain_key key) table"
  shows "definitions_loop table q =
     Inr (map_option snd (find (\<lambda>(key, text). fragment_match key q) table))"
  using assms
proof (induction table)
  case Nil
  show ?case by simp
next
  case (Cons entry table)
  obtain key body where entry: "entry = (key, body)" by (cases entry)
  from Cons.prems entry have "plain_key key" by simp
  then have "re_search (replace_char 32 124 key) q = Inr (fragment_match key q)"
    by (rule re_search_plain_key)
  moreover from Cons have "definitions_loop table q =
     Inr (map_option snd (find (\<lambda>(key, text). fragment_match key q) table))" by simp
  ultimately show ?case using entry by simp
qed

lemma plans_loop_find:
  "plans_loop U names q = find (\<lambda>name. py_in (lower U name) q) names"
  by (induction names) auto

lemma coverage_keys_plain: "list_all (\<lambda>(key, text). plain_key key) COVERAGE_DEFINITIONS"
  by (simp add: COVERAGE_DEFINITIONS_def plain_key_def re_metacharacters_def ascii_def)

lemma find_Some_member: "find P xs = Some x \<Longrightarrow> x \<in> set xs"
  by (induction xs) (auto split: if_splits)

lemma find_first_of_append:
  assumes "P x" and "\<forall>y \<in> set before. \<not> P y"
  shows "find P (before @ x # after) = Some x"
  using assms by (induction before) auto

lemma answer_question_cascade:
  "answer_question U question =
     (case coverage_definition_category (lower U question) of
        Some text \<Rightarrow> Inr text
      | None \<Rightarrow>
          (case plan_name_category U (lower U question) of
             Some name \<Rightarrow> plan_info U name
           | None \<Rightarrow>
               if pricing_category (lower U question) then pricing_answer
               else if overview_category (lower U question) then overview_answer
               else Inr fallback_answer))"
  by (simp add: answer_question_def Let_def definitions_loop_find [OF coverage_keys_plain]
      plans_loop_find coverage_definition_category_def plan_name_category_def
      pricing_category_def overview_category_def any_in_def
      split: option.splits)

section \<open>Facts about the formatter\<close>

lemma bit_length_bound: "n < 2 ^ k \<Longrightarrow> bit_length n \<le> k"
proof (induction k arbitrary: n)
  case 0
  then show ?case by (simp add: bit_length.simps)
next
  case (Suc k)
  show ?case
  proof (cases "n = 0")
    case True
    then show ?thesis by (simp add: bit_length.simps)
  next
    case False
    from Suc.prems have "n div 2 < 2 ^ k" by simp
    then have "bit_length (n div 2) \<le> k" by (rule Suc.IH)
    with False show ?thesis by (subst bit_length.simps) simp
  qed
qed

text \<open>An integer of at most 53 bits is its own float.\<close>

lemma float_of_int_exact:
  assumes "\<bar>n\<bar> < 2 ^ 53"
  shows "float_of_int n = Inr n"
proof -
  let ?a = "nat \<bar>n\<bar>"
  from assms have small: "?a < 2 ^ 53"
    by (simp add: nat_less_iff)
  then have "bit_length ?a \<le> 53" by (rule bit_length_bound)
  then have k: "bit_length ?a - 53 = 0" by simp
  have "(2::nat) ^ 53 < 2 ^ 1024" by simp
  with small have "\<not> 2 ^ 1024 \<le> ?a" by linarith
  moreover have "sgn n * int ?a = n"
    by (simp add: sgn_if)
  ultimately show ?thesis
    by (simp add: float_of_int_def k)
qed

lemma format_currency_small:
  assumes "0 \<le> n" "n < 2 ^ 53"
  shows "format_currency n = Inr (ascii ''PHP'' @ [8239] @ thousands (decimal (nat n)))"
  using assms by (simp add: format_currency_def float_of_int_exact format_comma_f0_def)

lemma format_currency_table:
  "format_currency 1800 = Inr (ascii ''PHP'' @ [8239] @ ascii ''1,800'')"
  "format_currency 7500 = Inr (ascii ''PHP'' @ [8239] @ ascii ''7,500'')"
  "format_currency 14000 = Inr (ascii ''PHP'' @ [8239] @ ascii ''14,000'')"
  "format_currency 100000 = Inr (ascii ''PHP'' @ [8239] @ ascii ''100,000'')"
  "format_currency 200000 = Inr (ascii ''PHP'' @ [8239] @ ascii ''200,000'')"
  "format_currency 300000 = Inr (ascii ''PHP'' @ [8239] @ ascii ''300,000'')"
  "format_currency 400000 = Inr (ascii ''PHP'' @ [8239] @ ascii ''400,000'')"
  "format_currency 600000 = Inr (ascii ''PHP'' @ [8239] @ ascii ''600,000'')"
  "format_currency 800000 = Inr (ascii ''PHP'' @ [8239] @ ascii ''800,000'')"
  "format_currency 2500 = Inr (ascii ''PHP'' @ [8239] @ ascii ''2,500'')"
  by (simp_all add: format_currency_small decimal.simps thousands_def ascii_def)

lemma coverage_title_table:
  "coverage_title U (ascii ''ctpl'') = ascii ''CTPL''"
  "coverage_title U (ascii ''own damage'') = ascii ''Own Damage''"
  "coverage_title U (ascii ''acts of god'') = ascii ''Acts Of God''"
  "coverage_title U (ascii ''personal accident'') = ascii ''Personal Accident''"
  "coverage_title U (ascii ''malicious mischief'') = ascii ''Malicious Mischief''"
  "coverage_title U (ascii ''roadside assistance'') = ascii ''Roadside Assistance''"
  "coverage_title U (ascii ''loss of use'') = ascii ''Loss Of Use''"
  by (simp_all add: coverage_title_def title_def is_ascii_def ascii_def upper_ascii_def
      lower_ascii_def is_cased_ascii_def)

text \<open>The three plan descriptions, evaluated.\<close>

lemma limit_line_table:
  "limit_line U (ascii ''ctpl'') 100000 = Inr (ascii ''CTPL: PHP'' @ [8239] @ ascii ''100,000 limit'')"
  "limit_line U (ascii ''own damage'') 400000 = Inr (ascii ''Own Damage: PHP'' @ [8239] @ ascii ''400,000 limit'')"
  "limit_line U (ascii ''own damage'') 800000 = Inr (ascii ''Own Damage: PHP'' @ [8239] @ ascii ''800,000 limit'')"
  "limit_line U (ascii ''acts of god'') 300000 = Inr (ascii ''Acts Of God: PHP'' @ [8239] @ ascii ''300,000 limit'')"
  "limit_line U (ascii ''acts of god'') 600000 = Inr (ascii ''Acts Of God: PHP'' @ [8239] @ ascii ''600,000 limit'')"
  "limit_line U (ascii ''personal accident'') 200000 = Inr (ascii ''Personal Accident: PHP'' @ [8239] @ ascii ''200,000 limit'')"
  "limit_line U (ascii ''malicious mischief'') 300000 = Inr (ascii ''Malicious Mischief: PHP'' @ [8239] @ ascii ''300,000 limit'')"
  "limit_line U (ascii ''roadside assistance'') 0 = Inr (ascii ''Roadside assistance: service included'')"
  "limit_line U (ascii ''loss of use'') 2500 = Inr (ascii ''Loss of use: reimbursed up to PHP'' @ [8239] @ ascii ''2,500 per day'')"
  by (simp_all add: limit_line_def format_currency_table coverage_title_table) (simp_all add: ascii_def)

lemma plan_info_Basic:
  "plan_info U (ascii ''Basic'') =
     Inr (join [10]
       [ascii ''**Basic Plan**'', basic_description, [],
        ascii ''Included coverage: CTPL.'',
        ascii ''Annual premium: PHP'' @ [8239] @ ascii ''1,800.'',
        ascii ''Coverage limits: CTPL: PHP'' @ [8239] @ ascii ''100,000 limit.''])"
  by (simp add: plan_info_def POLICY_PLANS_def limit_line_table format_currency_table
        coverage_title_table)
     (simp add: ascii_def)

lemma plan_info_Standard:
  "plan_info U (ascii ''Standard'') =
     Inr (join [10]
       [ascii ''**Standard Plan**'', standard_description, [],
        ascii ''Included coverage: CTPL, Own Damage, Acts Of God.'',
        ascii ''Annual premium: PHP'' @ [8239] @ ascii ''7,500.'',
        ascii ''Coverage limits: CTPL: PHP'' @ [8239] @ ascii ''100,000 limit; Own Damage: PHP'' @
          [8239] @ ascii ''400,000 limit; Acts Of God: PHP'' @ [8239] @ ascii ''300,000 limit.''])"
  by (simp add: plan_info_def POLICY_PLANS_def limit_line_table format_currency_table
        coverage_title_table)
     (simp add: ascii_def)

lemma plan_info_Premium:
  "plan_info U (ascii ''Premium'') =
     Inr (join [10]
       [ascii ''**Premium Plan**'', premium_description, [],
        ascii ''Included coverage: CTPL, Own Damage, Acts Of God, Personal Accident, '' @
          ascii ''Malicious Mischief, Roadside Assistance, Loss Of Use.'',
        ascii ''Annual premium: PHP'' @ [8239] @ ascii ''14,000.'',
        ascii ''Coverage limits: CTPL: PHP'' @ [8239] @ ascii ''100,000 limit; Own Damage: PHP'' @
          [8239] @ ascii ''800,000 limit; Acts Of God: PHP'' @ [8239] @
          ascii ''600,000 limit; Personal Accident: PHP'' @ [8239] @
          ascii ''200,000 limit; Malicious Mischief: PHP'' @ [8239] @
          ascii ''300,000 limit; Roadside assistance: service included; '' @
          ascii ''Loss of use: reimbursed up to PHP'' @ [8239] @ ascii ''2,500 per day.''])"
  by (simp add: plan_info_def POLICY_PLANS_def limit_line_table format_currency_table
        coverage_title_table)
     (simp add: ascii_def)

section \<open>Facts about the two tables\<close>

lemma definition_heads:
  assumes "(key, body) \<in> set COVERAGE_DEFINITIONS"
  shows "take 4 body \<in> {ascii ''**Co'', ascii ''**Ow'', ascii ''**Ac'', ascii ''**Pe'',
      ascii ''**Ro'', ascii ''**Lo''}"
proof -
  have "take 4 ctpl_definition = ascii ''**Co''"
    by (simp add: ctpl_definition_def ascii_def)
  moreover have "take 4 own_damage_definition = ascii ''**Ow''"
    by (simp add: own_damage_definition_def ascii_def)
  moreover have "take 4 acts_of_god_definition = ascii ''**Ac''"
    by (simp add: acts_of_god_definition_def ascii_def)
  moreover have "take 4 personal_accident_definition = ascii ''**Pe''"
    by (simp add: personal_accident_definition_def ascii_def)
  moreover have "take 4 malicious_mischief_definition = ascii ''**Ac''"
    by (simp add: malicious_mischief_definition_def ascii_def)
  moreover have "take 4 roadside_assistance_definition = ascii ''**Ro''"
    by (simp add: roadside_assistance_definition_def ascii_def)
  moreover have "take 4 loss_of_use_definition = ascii ''**Lo''"
    by (simp add: loss_of_use_definition_def ascii_def)
  ultimately show ?thesis
    using assms by (auto simp: COVERAGE_DEFINITIONS_def)
qed

lemma plan_names: 
  "(name, plan) \<in> set POLICY_PLANS \<Longrightarrow>
     name = ascii ''Basic'' \<or> name = ascii ''Standard'' \<or> name = ascii ''Premium''"
  by (auto simp: POLICY_PLANS_def)

lemma plan_info_heads:
  assumes "(name, plan) \<in> set POLICY_PLANS"
  shows "\<exists>s. plan_info U name = Inr s \<and>
     take 4 s \<in> {ascii ''**Ba'', ascii ''**St'', ascii ''**Pr''}"
proof -
  have "take 4 (projr (plan_info U (ascii ''Basic''))) = ascii ''**Ba''"
    by (simp add: plan_info_Basic) (simp add: ascii_def)
  moreover have "take 4 (projr (plan_info U (ascii ''Standard''))) = ascii ''**St''"
    by (simp add: plan_info_Standard) (simp add: ascii_def)
  moreover have "take 4 (projr (plan_info U (ascii ''Premium''))) = ascii ''**Pr''"
    by (simp add: plan_info_Premium) (simp add: ascii_def)
  ultimately show ?thesis
    using plan_names [OF assms]
    by (auto simp: plan_info_Basic plan_info_Standard plan_info_Premium)
qed

lemma plan_info_is_no_definition:
  assumes "(name, plan) \<in> set POLICY_PLANS" and "(key, body) \<in> set COVERAGE_DEFINITIONS"
  shows "plan_info U name \<noteq> Inr body"
proof
  assume eq: "plan_info U name = Inr body"
  from plan_info_heads [OF assms(1), of U] eq
  have "take 4 body \<in> {ascii ''**Ba'', ascii ''**St'', ascii ''**Pr''}" by auto
  with definition_heads [OF assms(2)] show False by auto
qed

section \<open>The pricing answer and the coverage overview, evaluated\<close>

lemma pricing_answer_eval:
  "pricing_answer =
     Inr (join [10]
       [ascii ''Here are the annual premiums for our available plans:'',
        ascii ''- **Basic Plan**: PHP'' @ [8239] @ ascii ''1,800'',
        ascii ''- **Standard Plan**: PHP'' @ [8239] @ ascii ''7,500'',
        ascii ''- **Premium Plan**: PHP'' @ [8239] @ ascii ''14,000'',
        [10] @ ascii ''Ask about a specific plan to see what it covers.''])"
  by (simp add: pricing_answer_def POLICY_PLANS_def format_currency_table)
     (simp add: ascii_def)

lemma summary_lines_loop_map:
  "summary_lines_loop lines table =
     Inr (lines @
       map (\<lambda>(key, body). ascii ''- '' @ takeWhile (\<lambda>c. c \<noteq> 46) body @ ascii ''.'') table)"
proof (induction table arbitrary: lines)
  case Nil
  show ?case by simp
next
  case (Cons entry table)
  obtain key body where entry: "entry = (key, body)" by (cases entry)
  obtain rest where "split_char 46 body = takeWhile (\<lambda>c. c \<noteq> 46) body # rest"
    using split_char_first by blast
  with entry show ?case by (simp add: Cons.IH)
qed

lemma first_sentence_takeWhile:
  assumes "46 \<in> set body"
  shows "first_sentence body = takeWhile (\<lambda>c. c \<noteq> 46) body @ [46]"
proof -
  let ?P = "\<lambda>c::nat. c \<noteq> 46"
  from assms have "dropWhile ?P body \<noteq> []" by auto
  then obtain c cs where drop: "dropWhile ?P body = c # cs" by (cases "dropWhile ?P body") auto
  then have "\<not> ?P c" using hd_dropWhile [of ?P body] by auto
  then have c: "c = 46" by simp
  have "body = takeWhile ?P body @ dropWhile ?P body" by simp
  then have "take (Suc (length (takeWhile ?P body))) body =
      take (Suc (length (takeWhile ?P body))) (takeWhile ?P body @ c # cs)"
    using drop by simp
  also have "\<dots> = takeWhile ?P body @ [c]" by simp
  finally show ?thesis using c by (simp add: first_sentence_def)
qed

lemma definitions_have_full_stop:
  assumes "(key, body) \<in> set COVERAGE_DEFINITIONS"
  shows "46 \<in> set body"
proof -
  have "46 \<in> set ctpl_definition"
    by (simp add: ctpl_definition_def ascii_def)
  moreover have "46 \<in> set own_damage_definition"
    by (simp add: own_damage_definition_def ascii_def)
  moreover have "46 \<in> set acts_of_god_definition"
    by (simp add: acts_of_god_definition_def ascii_def)
  moreover have "46 \<in> set personal_accident_definition"
    by (simp add: personal_accident_definition_def ascii_def)
  moreover have "46 \<in> set malicious_mischief_definition"
    by (simp add: malicious_mischief_definition_def ascii_def)
  moreover have "46 \<in> set roadside_assistance_definition"
    by (simp add: roadside_assistance_definition_def ascii_def)
  moreover have "46 \<in> set loss_of_use_definition"
    by (simp add: loss_of_use_definition_def ascii_def)
  ultimately show ?thesis
    using assms by (auto simp: COVERAGE_DEFINITIONS_def)
qed

lemma overview_answer_eval:
  "overview_answer =
     Inr (join [10]
       ([ascii ''We offer several types of coverage.  Here'' @ [39] @
         ascii ''s a quick overview:''] @
        map (\<lambda>(key, body). ascii ''- '' @ first_sentence body) COVERAGE_DEFINITIONS @
        [[10] @ ascii ''You can ask about any of these coverage types for more '' @
         ascii ''information or inquire about a specific plan.'']))"
proof -
  have bullets:
    "map (\<lambda>(key, body). ascii ''- '' @ takeWhile (\<lambda>c. c \<noteq> 46) body @ ascii ''.'')
       COVERAGE_DEFINITIONS =
     map (\<lambda>(key, body). ascii ''- '' @ first_sentence body) COVERAGE_DEFINITIONS"
    by (rule map_cong [OF refl])
       (auto simp: first_sentence_takeWhile definitions_have_full_stop ascii_def)
  have "overview_answer =
     Inr (join [10]
       ([ascii ''We offer several types of coverage.  Here'' @ [39] @
         ascii ''s a quick overview:''] @
        map (\<lambda>(key, body). ascii ''- '' @ takeWhile (\<lambda>c. c \<noteq> 46) body @ ascii ''.'')
          COVERAGE_DEFINITIONS @
        [[10] @ ascii ''You can ask about any of these coverage types for more '' @
         ascii ''information or inquire about a specific plan.'']))"
    by (simp add: overview_answer_def summary_lines_loop_map)
  then show ?thesis
    unfolding bullets .
qed

lemma join_not_Nil: "x \<noteq> [] \<Longrightarrow> join sep (x # xs) \<noteq> []"
  by (cases xs) auto

section \<open>Concrete questions, evaluated\<close>

lemmas lower_eval = lower_def is_ascii_def lower_ascii_def ascii_def

lemmas category_eval =
  coverage_definition_category_def plan_name_category_def pricing_category_def
  overview_category_def COVERAGE_DEFINITIONS_def POLICY_PLANS_def fragment_match_def
  lower_def is_ascii_def lower_ascii_def ascii_def

lemma lower_Nil: "lower U [] = []"
  by (simp add: lower_def is_ascii_def)

lemma empty_question_categories:
  "coverage_definition_category [] = None"
  "plan_name_category U [] = None"
  "\<not> pricing_category []"
  "\<not> overview_category []"
  by (simp_all add: category_eval)

lemma rates_question_lower:
  "lower U (ascii ''what are your rates'') = ascii ''what are your rates''"
  by (simp add: lower_eval)

lemma rates_question_categories:
  "coverage_definition_category (ascii ''what are your rates'') = None"
  "plan_name_category U (ascii ''what are your rates'') = None"
  "pricing_category (ascii ''what are your rates'')"
  by (simp_all add: category_eval)

lemma rates_question_answer:
  "answer_question U (ascii ''what are your rates'') = pricing_answer"
  by (simp add: answer_question_cascade rates_question_lower rates_question_categories)

lemma fallback_answer_not_Nil: "fallback_answer \<noteq> []"
  by (simp add: fallback_answer_def ascii_def)

lemma standard_question_lower:
  "lower U (ascii ''tell me about the Standard plan'') = ascii ''tell me about the standard plan''"
  by (simp add: lower_eval)

lemma standard_question_categories:
  "coverage_definition_category (ascii ''tell me about the standard plan'') = None"
  "plan_name_category U (ascii ''tell me about the standard plan'') = Some (ascii ''Standard'')"
  by (simp_all add: category_eval)

lemma standard_question_answer:
  "answer_question U (ascii ''tell me about the Standard plan'') = plan_info U (ascii ''Standard'')"
  by (simp add: answer_question_cascade standard_question_lower standard_question_categories)

lemma standard_plan_contents:
  "py_in (ascii ''Standard Plan'') (projr (plan_info U (ascii ''Standard'')))"
  "py_in (ascii ''PHP'' @ [8239] @ ascii ''7,500'') (projr (plan_info U (ascii ''Standard'')))"
  "py_in (ascii ''CTPL'') (projr (plan_info U (ascii ''Standard'')))"
  "py_in (ascii ''Own Damage'') (projr (plan_info U (ascii ''Standard'')))"
  "py_in (ascii ''Acts Of God'') (projr (plan_info U (ascii ''Standard'')))"
  "\<not> py_in (ascii ''Personal Accident'') (projr (plan_info U (ascii ''Standard'')))"
  "\<not> py_in (ascii ''PHP 7,500'') (projr (plan_info U (ascii ''Standard'')))"
  by (simp_all add: plan_info_Standard standard_description_def) (simp_all add: ascii_def)

lemma plan_names_lower:
  "lower U (ascii ''Basic'') = ascii ''basic''"
  "lower U (ascii ''Standard'') = ascii ''standard''"
  "lower U (ascii ''Premium'') = ascii ''premium''"
  by (simp_all add: lower_eval)

lemma plan_name_category_eval:
  "plan_name_category U q =
     (if py_in (ascii ''basic'') q then Some (ascii ''Basic'')
      else if py_in (ascii ''standard'') q then Some (ascii ''Standard'')
      else if py_in (ascii ''premium'') q then Some (ascii ''Premium'')
      else None)"
  by (simp add: plan_name_category_def POLICY_PLANS_def plan_names_lower)

lemma pricing_answer_is_no_plan:
  assumes "(name, plan) \<in> set POLICY_PLANS"
  shows "plan_info U name \<noteq> pricing_answer"
proof
  assume eq: "plan_info U name = pricing_answer"
  obtain s where s: "plan_info U name = Inr s"
    and head: "take 4 s \<in> {ascii ''**Ba'', ascii ''**St'', ascii ''**Pr''}"
    using plan_info_heads [OF assms, of U] by blast
  have "take 4 (projr pricing_answer) = ascii ''Here''"
    by (simp add: pricing_answer_eval ascii_def)
  moreover from eq s have "projr pricing_answer = s" by (metis sum.sel(2))
  ultimately have "take 4 s = ascii ''Here''" by simp
  with head show False by (simp add: ascii_def)
qed

lemma basic_premium_question:
  "lower U (ascii ''basic premium'') = ascii ''basic premium''"
  "coverage_definition_category (ascii ''basic premium'') = None"
  "py_in (ascii ''premium'') (ascii ''basic premium'')"
  "py_in (ascii ''basic'') (ascii ''basic premium'')"
  by (simp_all add: category_eval)

lemma basic_is_not_premium: "plan_info U (ascii ''Basic'') \<noteq> plan_info U (ascii ''Premium'')"
  by (simp add: plan_info_Basic plan_info_Premium) (simp add: ascii_def)

lemma offer_question:
  "lower U (ascii ''what coverage do you offer'') = ascii ''what coverage do you offer''"
  "coverage_definition_category (ascii ''what coverage do you offer'') =
     Some acts_of_god_definition"
  by (simp_all add: category_eval)

lemma covered_question:
  "lower U (ascii ''what is covered'') = ascii ''what is covered''"
  "coverage_definition_category (ascii ''what is covered'') = None"
  "plan_name_category U (ascii ''what is covered'') = None"
  "\<not> pricing_category (ascii ''what is covered'')"
  "overview_category (ascii ''what is covered'')"
  by (simp_all add: category_eval)

lemma overview_is_no_definition: "overview_answer \<noteq> Inr acts_of_god_definition"
proof
  assume eq: "overview_answer = Inr acts_of_god_definition"
  have "take 4 (projr overview_answer) = ascii ''We o''"
    by (simp add: overview_answer_eval COVERAGE_DEFINITIONS_def ascii_def)
  moreover have "take 4 acts_of_god_definition = ascii ''**Ac''"
    by (simp add: acts_of_god_definition_def ascii_def)
  moreover from eq have "projr overview_answer = acts_of_god_definition"
    by (metis sum.sel(2))
  ultimately show False by (simp add: ascii_def)
qed

section \<open>Facts about digits and grouping\<close>

lemma decimal_not_Nil: "decimal n \<noteq> []"
  by (subst decimal.simps) simp

lemma decimal_digits: "c \<in> set (decimal n) \<Longrightarrow> 48 \<le> c \<and> c \<le> 57"
proof (induction n rule: decimal.induct)
  case (1 n)
  show ?case
  proof (cases "n < 10")
    case True
    with "1.prems" show ?thesis by (subst (asm) decimal.simps) simp
  next
    case False
    have "n mod 10 < 10" by simp
    then have "48 + n mod 10 \<le> 57" by linarith
    with False "1.prems" "1.IH" show ?thesis
      by (subst (asm) decimal.simps) auto
  qed
qed

lemma digits_value_snoc: "digits_value (ds @ [d]) = 10 * digits_value ds + (d - 48)"
  by (simp add: digits_value_def)

lemma digits_value_decimal: "digits_value (decimal n) = n"
proof (induction n rule: decimal.induct)
  case (1 n)
  show ?case
  proof (cases "n < 10")
    case True
    then show ?thesis by (subst decimal.simps) (simp add: digits_value_def)
  next
    case False
    with "1.IH" have "digits_value (decimal (n div 10)) = n div 10" by simp
    with False show ?thesis
      by (subst decimal.simps) (simp add: digits_value_snoc)
  qed
qed

lemma decimal_no_leading_zero: "0 < n \<Longrightarrow> hd (decimal n) \<noteq> 48"
proof (induction n rule: decimal.induct)
  case (1 n)
  show ?case
  proof (cases "n < 10")
    case True
    with "1.prems" show ?thesis by (subst decimal.simps) simp
  next
    case False
    then have "0 < n div 10" by simp
    with False "1.IH" have "hd (decimal (n div 10)) \<noteq> 48" by simp
    with False show ?thesis
      by (subst decimal.simps) (simp add: decimal_not_Nil)
  qed
qed

lemma decimal_zero: "decimal 0 = ascii ''0''"
  by (subst decimal.simps) (simp add: ascii_def)

lemma group3_filter: "44 \<notin> set xs \<Longrightarrow> filter (\<lambda>c. c \<noteq> 44) (group3 xs) = xs"
  by (induction xs rule: group3.induct) auto

lemma group3_set: "set (group3 xs) \<subseteq> insert 44 (set xs)"
  by (induction xs rule: group3.induct) auto

lemma group3_not_Nil: "xs \<noteq> [] \<Longrightarrow> group3 xs \<noteq> []"
  by (induction xs rule: group3.induct) auto

lemma group3_last: "xs \<noteq> [] \<Longrightarrow> last (group3 xs) = last xs"
  by (induction xs rule: group3.induct) (auto simp: group3_not_Nil)

lemma group3_commas:
  "44 \<notin> set xs \<Longrightarrow> i < length (group3 xs) \<Longrightarrow> (group3 xs ! i = 44) = (i mod 4 = 3)"
proof (induction xs arbitrary: i rule: group3.induct)
  case (1 a b c d ds)
  show ?case
  proof (cases "i < 4")
    case True
    then consider "i = 0" | "i = 1" | "i = 2" | "i = 3" by linarith
    then show ?thesis
    proof cases
      case 1
      with "1.prems"(1) show ?thesis by auto
    next
      case 2
      with "1.prems"(1) show ?thesis by auto
    next
      case 3
      have "(a # b # c # 44 # group3 (d # ds)) ! 2 = c" by (simp add: nth_Cons')
      with 3 "1.prems"(1) show ?thesis by auto
    next
      case 4
      have "(a # b # c # 44 # group3 (d # ds)) ! 3 = 44" by (simp add: nth_Cons')
      with 4 show ?thesis by simp
    qed
  next
    case False
    then obtain j where i: "i = 4 + j" using le_Suc_ex [of 4 i] by auto
    with "1.prems" have "j < length (group3 (d # ds))" by simp
    moreover from "1.prems" have "44 \<notin> set (d # ds)" by simp
    ultimately have "(group3 (d # ds) ! j = 44) = (j mod 4 = 3)" by (rule "1.IH"[rotated])
    moreover have "(a # b # c # 44 # group3 (d # ds)) ! (4 + j) = group3 (d # ds) ! j"
      by (simp add: nth_Cons')
    moreover have "i mod 4 = j mod 4" unfolding i by simp
    ultimately show ?thesis using i by simp
  qed
next
  fix i :: nat
  assume "i < length (group3 [])"
  then show "(group3 [] ! i = 44) = (i mod 4 = 3)" by simp
next
  fix v i :: nat
  assume "44 \<notin> set [v]" and "i < length (group3 [v])"
  then show "(group3 [v] ! i = 44) = (i mod 4 = 3)" by simp
next
  fix v va i :: nat
  assume no_comma: "44 \<notin> set [v, va]" and "i < length (group3 [v, va])"
  then have "i = 0 \<or> i = 1" by auto
  with no_comma show "(group3 [v, va] ! i = 44) = (i mod 4 = 3)" by auto
next
  fix v va vb i :: nat
  assume no_comma: "44 \<notin> set [v, va, vb]" and "i < length (group3 [v, va, vb])"
  then have "i = 0 \<or> i = 1 \<or> i = 2" by auto
  moreover have "[v, va, vb] ! 2 = vb" by (simp add: nth_Cons')
  ultimately show "(group3 [v, va, vb] ! i = 44) = (i mod 4 = 3)"
    using no_comma by auto
qed

lemma decimal_no_comma: "44 \<notin> set (decimal n)"
  using decimal_digits [of 44 n] by auto

lemma thousands_filter:
  assumes "44 \<notin> set ds"
  shows "filter (\<lambda>c. c \<noteq> 44) (thousands ds) = ds"
proof -
  from assms have "44 \<notin> set (rev ds)" by simp
  then have "filter (\<lambda>c. c \<noteq> 44) (group3 (rev ds)) = rev ds"
    by (rule group3_filter)
  then have "rev (filter (\<lambda>c. c \<noteq> 44) (group3 (rev ds))) = ds" by simp
  then show ?thesis
    unfolding thousands_def rev_filter .
qed

lemma thousands_set: "set (thousands ds) \<subseteq> insert 44 (set ds)"
  using group3_set [of "rev ds"] by (simp add: thousands_def)

lemma thousands_not_Nil: "ds \<noteq> [] \<Longrightarrow> thousands ds \<noteq> []"
  by (simp add: thousands_def group3_not_Nil)

lemma thousands_hd: "ds \<noteq> [] \<Longrightarrow> hd (thousands ds) = hd ds"
  by (simp add: thousands_def hd_rev group3_last last_rev group3_not_Nil)

lemma mod4_shift: "(k mod 4 = 3) = (Suc k mod 4 = (0::nat))"
  by presburger

lemma thousands_commas:
  assumes "44 \<notin> set ds" and "i < length (thousands ds)"
  shows "(thousands ds ! i = 44) = ((length (thousands ds) - i) mod 4 = 0)"
proof -
  let ?g = "group3 (rev ds)"
  let ?k = "length ?g - Suc i"
  from assms(2) have i: "i < length ?g" by (simp add: thousands_def)
  then have nth: "thousands ds ! i = ?g ! ?k"
    by (simp add: thousands_def rev_nth)
  from assms(1) have "44 \<notin> set (rev ds)" by simp
  moreover from i have "?k < length ?g" by simp
  ultimately have "(?g ! ?k = 44) = (?k mod 4 = 3)"
    by (rule group3_commas)
  moreover from i have "length ?g - i = Suc ?k" by simp
  ultimately have "(?g ! ?k = 44) = ((length ?g - i) mod 4 = 0)"
    by (simp only: mod4_shift)
  with nth show ?thesis by (simp add: thousands_def)
qed

lemma format_currency_zero: "format_currency 0 = Inr (ascii ''PHP'' @ [8239] @ ascii ''0'')"
  by (simp add: format_currency_small decimal_zero thousands_def) (simp add: ascii_def)

lemma format_currency_beyond_53_bits:
  "format_currency 9007199254740993 =
     Inr (ascii ''PHP'' @ [8239] @ ascii ''9,007,199,254,740,992'')"
proof -
  have "bit_length 9007199254740993 = 54"
    by (simp add: bit_length.simps)
  then have "float_of_int 9007199254740993 = Inr 9007199254740992"
    by (simp add: float_of_int_def Let_def)
  moreover have "decimal 9007199254740992 = ascii ''9007199254740992''"
    by (simp add: decimal.simps ascii_def)
  moreover have "thousands (ascii ''9007199254740992'') = ascii ''9,007,199,254,740,992''"
    by (simp add: thousands_def ascii_def)
  ultimately show ?thesis
    by (simp add: format_currency_def format_comma_f0_def)
qed

lemma format_currency_1234567:
  "format_currency 1234567 = Inr (ascii ''PHP'' @ [8239] @ ascii ''1,234,567'')"
  by (simp add: format_currency_small decimal.simps thousands_def ascii_def)

section \<open>Facts about the plan description\<close>

lemma limit_line_clause:
  "\<not> isl (format_currency limit) \<Longrightarrow> limit_line U cov limit = Inr (limit_clause U (cov, limit))"
  by (cases "format_currency limit") (simp_all add: limit_line_def limit_clause_def)

lemma limit_lines_loop_map:
  assumes "\<forall>(cov, limit) \<in> set items. \<not> isl (format_currency limit)"
  shows "limit_lines_loop U limit_lines items = Inr (limit_lines @ map (limit_clause U) items)"
  using assms
proof (induction items arbitrary: limit_lines)
  case Nil
  show ?case by simp
next
  case (Cons item items)
  obtain cov limit where item: "item = (cov, limit)" by (cases item)
  with Cons.prems have "limit_line U cov limit = Inr (limit_clause U (cov, limit))"
    by (simp add: limit_line_clause)
  moreover from Cons.prems
  have "limit_lines_loop U (limit_lines @ [limit_clause U (cov, limit)]) items =
      Inr ((limit_lines @ [limit_clause U (cov, limit)]) @ map (limit_clause U) items)"
    by (intro Cons.IH) simp
  ultimately show ?case using item by simp
qed

lemma table_amounts:
  assumes "(name, plan) \<in> set POLICY_PLANS"
  shows "0 \<le> premium plan \<and> premium plan < 2 ^ 53 \<and>
     (\<forall>(cov, limit) \<in> set (limits plan). 0 \<le> limit \<and> limit < 2 ^ 53)"
  using assms by (auto simp: POLICY_PLANS_def)

lemma plan_names_distinct: "distinct (map fst POLICY_PLANS)"
  by (simp add: POLICY_PLANS_def)

lemma format_currency_succeeds: "0 \<le> n \<Longrightarrow> n < 2 ^ 53 \<Longrightarrow> \<not> isl (format_currency n)"
  by (simp add: format_currency_small)

lemma premium_plan_limit_line:
  "\<not> isl (plan_info U (ascii ''Premium''))"
  "py_in (ascii ''Roadside assistance: service included'') (projr (plan_info U (ascii ''Premium'')))"
  "\<not> py_in (ascii ''Roadside Assistance: service included'')
     (projr (plan_info U (ascii ''Premium'')))"
  "\<not> py_in (ascii ''Loss Of Use: reimbursed'') (projr (plan_info U (ascii ''Premium'')))"
  by (simp_all add: plan_info_Premium premium_description_def) (simp_all add: ascii_def)

section \<open>The order of the categories\<close>

text \<open>
  C1. The answer is that of the first category that matches, in the order coverage
  definition, plan name, pricing, coverage overview, fallback. In particular a question
  whose lower-cased form holds both the lower-cased name of a plan and a fragment of a
  coverage key is answered with the first matching coverage definition, which is the
  description of no plan.
\<close>

theorem answer_precedence:
  "answer_question U question =
     (case coverage_definition_category (lower U question) of
        Some body \<Rightarrow> Inr body
      | None \<Rightarrow>
          (case plan_name_category U (lower U question) of
             Some name \<Rightarrow> plan_info U name
           | None \<Rightarrow>
               if pricing_category (lower U question) then pricing_answer
               else if overview_category (lower U question) then overview_answer
               else Inr fallback_answer)) \<and>
   ((name, plan) \<in> set POLICY_PLANS \<and> py_in (lower U name) (lower U question) \<and>
    (key, body) \<in> set COVERAGE_DEFINITIONS \<and> fragment_match key (lower U question) \<longrightarrow>
      (\<exists>found. coverage_definition_category (lower U question) = Some found \<and>
         answer_question U question = Inr found \<and>
         (\<forall>(n, p) \<in> set POLICY_PLANS. plan_info U n \<noteq> Inr found)))"
proof (intro conjI impI)
  show "answer_question U question =
     (case coverage_definition_category (lower U question) of
        Some body \<Rightarrow> Inr body
      | None \<Rightarrow>
          (case plan_name_category U (lower U question) of
             Some name \<Rightarrow> plan_info U name
           | None \<Rightarrow>
               if pricing_category (lower U question) then pricing_answer
               else if overview_category (lower U question) then overview_answer
               else Inr fallback_answer))"
    by (rule answer_question_cascade)
next
  let ?q = "lower U question"
  let ?P = "\<lambda>(key, body). fragment_match key ?q"
  assume both: "(name, plan) \<in> set POLICY_PLANS \<and> py_in (lower U name) ?q \<and>
    (key, body) \<in> set COVERAGE_DEFINITIONS \<and> fragment_match key ?q"
  then have "(key, body) \<in> set COVERAGE_DEFINITIONS" and "?P (key, body)" by simp_all
  then have "find ?P COVERAGE_DEFINITIONS \<noteq> None"
    unfolding find_None_iff by blast
  then obtain k found where first: "find ?P COVERAGE_DEFINITIONS = Some (k, found)"
    by auto
  then have member: "(k, found) \<in> set COVERAGE_DEFINITIONS"
    by (rule find_Some_member)
  from first have category: "coverage_definition_category ?q = Some found"
    by (simp add: coverage_definition_category_def)
  then have "answer_question U question = Inr found"
    by (simp add: answer_question_cascade)
  moreover have "\<forall>(n, p) \<in> set POLICY_PLANS. plan_info U n \<noteq> Inr found"
    using plan_info_is_no_definition [OF _ member] by auto
  ultimately show "\<exists>found. coverage_definition_category ?q = Some found \<and>
         answer_question U question = Inr found \<and>
         (\<forall>(n, p) \<in> set POLICY_PLANS. plan_info U n \<noteq> Inr found)"
    using category by blast
qed

theorem answer_precedence_witness:
  "py_in (lower plain_unicode (ascii ''Basic''))
     (lower plain_unicode (ascii ''does the Basic plan cover acts of god'')) \<and>
   fragment_match (ascii ''acts of god'')
     (lower plain_unicode (ascii ''does the Basic plan cover acts of god'')) \<and>
   answer_question plain_unicode (ascii ''does the Basic plan cover acts of god'') =
     Inr acts_of_god_definition \<and>
   plan_info plain_unicode (ascii ''Basic'') \<noteq> Inr acts_of_god_definition"
proof -
  let ?question = "ascii ''does the Basic plan cover acts of god''"
  let ?q = "lower plain_unicode ?question"
  have q: "?q = ascii ''does the basic plan cover acts of god''"
    by (simp add: lower_def is_ascii_def lower_ascii_def ascii_def)
  have name: "lower plain_unicode (ascii ''Basic'') = ascii ''basic''"
    by (simp add: lower_def is_ascii_def lower_ascii_def ascii_def)
  have plan: "(ascii ''Basic'', snd (POLICY_PLANS ! 0)) \<in> set POLICY_PLANS"
    by (simp add: POLICY_PLANS_def)
  have entry: "(ascii ''acts of god'', acts_of_god_definition) \<in> set COVERAGE_DEFINITIONS"
    by (simp add: COVERAGE_DEFINITIONS_def)
  have inside: "py_in (lower plain_unicode (ascii ''Basic'')) ?q"
    unfolding q name by (simp add: ascii_def)
  have fragment: "fragment_match (ascii ''acts of god'') ?q"
    unfolding q by (simp add: fragment_match_def ascii_def)
  have category: "coverage_definition_category ?q = Some acts_of_god_definition"
    unfolding q
    by (simp add: coverage_definition_category_def COVERAGE_DEFINITIONS_def fragment_match_def
        ascii_def)
  from answer_precedence [of plain_unicode ?question "ascii ''Basic''" "snd (POLICY_PLANS ! 0)"
      "ascii ''acts of god''" acts_of_god_definition] plan inside entry fragment
  obtain found where found: "coverage_definition_category ?q = Some found"
    "answer_question plain_unicode ?question = Inr found"
    "\<forall>(n, p) \<in> set POLICY_PLANS. plan_info plain_unicode n \<noteq> Inr found"
    by blast
  from found(1) category have "found = acts_of_god_definition" by simp
  with found(2,3) plan inside fragment show ?thesis by auto
qed

section \<open>The word "premium" names a plan\<close>

text \<open>
  C10, as amended. For every question whose lower-cased form holds "premium" and no
  fragment of any coverage key, the answer is the description of a plan and never the
  pricing answer: the description of the first of Basic, Standard and Premium whose
  lower-cased name the question holds, which is the Premium plan when the question
  holds neither "basic" nor "standard".
\<close>

theorem premium_word_is_a_plan_lookup:
  assumes premium: "py_in (ascii ''premium'') (lower U question)"
    and no_fragment: "\<forall>(key, body) \<in> set COVERAGE_DEFINITIONS.
        \<forall>fragment \<in> set (split_char 32 key). \<not> py_in fragment (lower U question)"
  shows "answer_question U question =
      plan_info U
        (if py_in (ascii ''basic'') (lower U question) then ascii ''Basic''
         else if py_in (ascii ''standard'') (lower U question) then ascii ''Standard''
         else ascii ''Premium'') \<and>
    answer_question U question \<noteq> pricing_answer"
proof -
  let ?q = "lower U question"
  let ?name = "if py_in (ascii ''basic'') ?q then ascii ''Basic''
         else if py_in (ascii ''standard'') ?q then ascii ''Standard''
         else ascii ''Premium''"
  from no_fragment have "\<forall>entry \<in> set COVERAGE_DEFINITIONS.
      \<not> (case entry of (key, body) \<Rightarrow> fragment_match key ?q)"
    by (auto simp: fragment_match_def list_ex_iff)
  then have "find (\<lambda>(key, body). fragment_match key ?q) COVERAGE_DEFINITIONS = None"
    unfolding find_None_iff by blast
  then have no_definition: "coverage_definition_category ?q = None"
    by (simp add: coverage_definition_category_def)
  from premium have plan: "plan_name_category U ?q = Some ?name"
    by (simp add: plan_name_category_eval)
  from no_definition plan have answer: "answer_question U question = plan_info U ?name"
    by (simp add: answer_question_cascade)
  have "\<exists>plan. (?name, plan) \<in> set POLICY_PLANS"
    by (auto simp: POLICY_PLANS_def)
  then have "plan_info U ?name \<noteq> pricing_answer"
    using pricing_answer_is_no_plan by blast
  with answer show ?thesis by simp
qed

theorem premium_word_is_a_plan_lookup_witness:
  "py_in (ascii ''premium'') (lower plain_unicode (ascii ''Tell me about PREMIUM'')) \<and>
   answer_question plain_unicode (ascii ''Tell me about PREMIUM'') =
     plan_info plain_unicode (ascii ''Premium'') \<and>
   answer_question plain_unicode (ascii ''Tell me about PREMIUM'') \<noteq> pricing_answer"
proof -
  let ?question = "ascii ''Tell me about PREMIUM''"
  have q: "lower plain_unicode ?question = ascii ''tell me about premium''"
    by (simp add: lower_eval)
  have premium: "py_in (ascii ''premium'') (lower plain_unicode ?question)"
    unfolding q by (simp add: ascii_def)
  have no_fragment: "\<forall>(key, body) \<in> set COVERAGE_DEFINITIONS.
      \<forall>fragment \<in> set (split_char 32 key). \<not> py_in fragment (lower plain_unicode ?question)"
    unfolding q by (simp add: COVERAGE_DEFINITIONS_def ascii_def)
  have others: "\<not> py_in (ascii ''basic'') (lower plain_unicode ?question)"
    "\<not> py_in (ascii ''standard'') (lower plain_unicode ?question)"
    unfolding q by (simp_all add: ascii_def)
  from premium_word_is_a_plan_lookup [OF premium no_fragment]
  have "answer_question plain_unicode ?question = plan_info plain_unicode (ascii ''Premium'')"
    and "answer_question plain_unicode ?question \<noteq> pricing_answer"
    using others by auto
  with premium show ?thesis by blast
qed

text \<open>
  The claim as stated fails: "basic premium" holds "premium" and no fragment of a
  coverage key, and is answered with the Basic plan, not the Premium plan.
\<close>

theorem premium_word_is_a_plan_lookup_counterexample:
  "py_in (ascii ''premium'') (lower plain_unicode (ascii ''basic premium'')) \<and>
   coverage_definition_category (lower plain_unicode (ascii ''basic premium'')) = None \<and>
   answer_question plain_unicode (ascii ''basic premium'') =
     plan_info plain_unicode (ascii ''Basic'') \<and>
   answer_question plain_unicode (ascii ''basic premium'') \<noteq>
     plan_info plain_unicode (ascii ''Premium'')"
proof -
  have "answer_question plain_unicode (ascii ''basic premium'') =
      plan_info plain_unicode (ascii ''Basic'')"
    by (simp add: answer_question_cascade basic_premium_question plan_name_category_eval)
  then show ?thesis
    using basic_is_not_premium [of plain_unicode]
    by (simp add: basic_premium_question)
qed

section \<open>The responder never fails\<close>

text \<open>
  C2. For every question, the empty one included, \<open>answer_question\<close> raises nothing and
  returns a text that is not empty; the empty question gets the fallback answer.
\<close>

theorem answer_total:
  "(\<exists>s. answer_question U question = Inr s \<and> s \<noteq> []) \<and>
   answer_question U [] = Inr fallback_answer"
proof
  let ?q = "lower U question"
  show "\<exists>s. answer_question U question = Inr s \<and> s \<noteq> []"
  proof (cases "coverage_definition_category ?q")
    case (Some body)
    then obtain entry where "find (\<lambda>(key, body). fragment_match key ?q) COVERAGE_DEFINITIONS
        = Some entry" and "snd entry = body"
      by (auto simp: coverage_definition_category_def)
    then have "(fst entry, body) \<in> set COVERAGE_DEFINITIONS"
      using find_Some_member [of _ COVERAGE_DEFINITIONS entry] by auto
    then have "body \<noteq> []"
      using definition_heads by (fastforce simp: ascii_def)
    with Some show ?thesis by (simp add: answer_question_cascade)
  next
    case None
    note no_definition = this
    show ?thesis
    proof (cases "plan_name_category U ?q")
      case (Some name)
      then have "name \<in> set (map fst POLICY_PLANS)"
        unfolding plan_name_category_def by (rule find_Some_member)
      then obtain plan where "(name, plan) \<in> set POLICY_PLANS" by auto
      then obtain s where "plan_info U name = Inr s"
        and "take 4 s \<in> {ascii ''**Ba'', ascii ''**St'', ascii ''**Pr''}"
        using plan_info_heads by blast
      then have "plan_info U name = Inr s \<and> s \<noteq> []"
        by (fastforce simp: ascii_def)
      with no_definition Some show ?thesis by (simp add: answer_question_cascade)
    next
      case None
      have "\<exists>s. pricing_answer = Inr s \<and> s \<noteq> []"
        by (simp add: pricing_answer_eval join_not_Nil ascii_def)
      moreover have "\<exists>s. overview_answer = Inr s \<and> s \<noteq> []"
        by (simp add: overview_answer_eval join_not_Nil ascii_def)
      ultimately show ?thesis
        using no_definition None fallback_answer_not_Nil
        by (simp add: answer_question_cascade)
    qed
  qed
next
  show "answer_question U [] = Inr fallback_answer"
    by (simp add: answer_question_cascade lower_Nil empty_question_categories)
qed

theorem answer_total_witness:
  "answer_question plain_unicode (ascii ''what'' @ 39 # ascii ''s the weather today'') =
     Inr fallback_answer \<and>
   fallback_answer \<noteq> [] \<and>
   answer_question plain_unicode [] = Inr fallback_answer"
proof -
  let ?question = "ascii ''what'' @ 39 # ascii ''s the weather today''"
  have q: "lower plain_unicode ?question = ?question"
    by (simp add: lower_eval)
  have "coverage_definition_category ?question = None"
    "plan_name_category plain_unicode ?question = None"
    "\<not> pricing_category ?question" "\<not> overview_category ?question"
    by (simp_all add: category_eval)
  then have "answer_question plain_unicode ?question = Inr fallback_answer"
    by (simp add: answer_question_cascade q)
  with answer_total [of plain_unicode ?question] fallback_answer_not_Nil
  show ?thesis by simp
qed

section \<open>Coverage definitions are matched by fragments, first entry first\<close>

text \<open>
  C3. For every question, when an entry of the coverage-definition table has a key one
  of whose space-separated fragments occurs in the lower-cased question, and no entry
  before it in the table has such a fragment, the answer is that entry's definition
  text, whatever the plan names and keywords in the question.
\<close>

theorem coverage_definition_first_match:
  assumes table: "COVERAGE_DEFINITIONS = before @ (key, text) # after"
    and fragment: "fragment \<in> set (split_char 32 key)"
    and occurs: "lower U question = left @ fragment @ right"
    and earlier: "\<forall>(k, d) \<in> set before. \<forall>f \<in> set (split_char 32 k).
        \<forall>l r. lower U question \<noteq> l @ f @ r"
  shows "answer_question U question = Inr text"
proof -
  let ?q = "lower U question"
  let ?P = "\<lambda>(key, text). fragment_match key ?q"
  from occurs have "py_in fragment ?q"
    unfolding py_in_iff by blast
  with fragment have here: "?P (key, text)"
    by (auto simp: fragment_match_def list_ex_iff)
  have "\<not> ?P entry" if "entry \<in> set before" for entry
  proof -
    obtain k d where entry: "entry = (k, d)" by (cases entry)
    with that earlier
    have "\<forall>f \<in> set (split_char 32 k). \<forall>l r. ?q \<noteq> l @ f @ r" by blast
    then have "\<not> fragment_match k ?q"
      by (auto simp: fragment_match_def list_ex_iff py_in_iff)
    with entry show ?thesis by simp
  qed
  then have "\<forall>entry \<in> set before. \<not> ?P entry" by blast
  with here have "find ?P (before @ (key, text) # after) = Some (key, text)"
    by (rule find_first_of_append)
  then have "coverage_definition_category ?q = Some text"
    by (simp add: coverage_definition_category_def table)
  then show ?thesis
    by (simp add: answer_question_cascade)
qed

theorem coverage_definition_first_match_witness:
  "\<forall>U. answer_question U (ascii ''is loss of income included'') = Inr acts_of_god_definition"
proof
  fix U
  let ?question = "ascii ''is loss of income included''"
  have table: "COVERAGE_DEFINITIONS =
      [(ascii ''ctpl'', ctpl_definition), (ascii ''own damage'', own_damage_definition)] @
      (ascii ''acts of god'', acts_of_god_definition) #
      [(ascii ''personal accident'', personal_accident_definition),
       (ascii ''malicious mischief'', malicious_mischief_definition),
       (ascii ''roadside assistance'', roadside_assistance_definition),
       (ascii ''loss of use'', loss_of_use_definition)]"
    by (simp add: COVERAGE_DEFINITIONS_def)
  have fragment: "ascii ''of'' \<in> set (split_char 32 (ascii ''acts of god''))"
    by code_simp
  have occurs: "lower U ?question = ascii ''is loss '' @ ascii ''of'' @ ascii '' income included''"
    by code_simp
  have "\<forall>(k, d) \<in> set [(ascii ''ctpl'', ctpl_definition),
            (ascii ''own damage'', own_damage_definition)].
          \<forall>f \<in> set (split_char 32 k). \<not> py_in f (lower U ?question)"
    by code_simp
  then have earlier: "\<forall>(k, d) \<in> set [(ascii ''ctpl'', ctpl_definition),
            (ascii ''own damage'', own_damage_definition)].
          \<forall>f \<in> set (split_char 32 k). \<forall>l r. lower U ?question \<noteq> l @ f @ r"
    unfolding py_in_iff by blast
  show "answer_question U ?question = Inr acts_of_god_definition"
    using coverage_definition_first_match [OF table fragment occurs earlier] .
qed

section \<open>The coverage overview\<close>

text \<open>
  C4, as amended. The answer to "what coverage do you offer" is the definition text of
  "acts of god", whose fragment "of" occurs in "offer". The coverage overview (the
  header line, one bulleted line per coverage definition in table order holding that
  definition's text up to and including its first full stop, an empty line and the hint
  line) is the answer to every question that matches no coverage fragment, no plan name
  and no pricing word and holds "coverage", "covered" or "benefits", such as
  "what is covered".
\<close>

theorem coverage_overview_answer:
  "answer_question U (ascii ''what coverage do you offer'') = Inr acts_of_god_definition \<and>
   (coverage_definition_category (lower U question) = None \<and>
    plan_name_category U (lower U question) = None \<and>
    \<not> pricing_category (lower U question) \<and>
    overview_category (lower U question) \<longrightarrow>
      answer_question U question =
        Inr (join [10]
          ([ascii ''We offer several types of coverage.  Here'' @ [39] @
            ascii ''s a quick overview:''] @
           map (\<lambda>(key, body). ascii ''- '' @ first_sentence body) COVERAGE_DEFINITIONS @
           [[10] @ ascii ''You can ask about any of these coverage types for more '' @
            ascii ''information or inquire about a specific plan.'']))) \<and>
   answer_question U (ascii ''what is covered'') = overview_answer"
proof (intro conjI impI)
  show "answer_question U (ascii ''what coverage do you offer'') = Inr acts_of_god_definition"
    by (simp add: answer_question_cascade offer_question)
next
  assume "coverage_definition_category (lower U question) = None \<and>
    plan_name_category U (lower U question) = None \<and>
    \<not> pricing_category (lower U question) \<and>
    overview_category (lower U question)"
  then have "answer_question U question = overview_answer"
    by (simp add: answer_question_cascade)
  then show "answer_question U question =
        Inr (join [10]
          ([ascii ''We offer several types of coverage.  Here'' @ [39] @
            ascii ''s a quick overview:''] @
           map (\<lambda>(key, body). ascii ''- '' @ first_sentence body) COVERAGE_DEFINITIONS @
           [[10] @ ascii ''You can ask about any of these coverage types for more '' @
            ascii ''information or inquire about a specific plan.'']))"
    by (simp only: overview_answer_eval)
next
  show "answer_question U (ascii ''what is covered'') = overview_answer"
    by (simp add: answer_question_cascade covered_question)
qed

theorem coverage_overview_answer_witness:
  "coverage_definition_category (lower plain_unicode (ascii ''what is covered'')) = None \<and>
   plan_name_category plain_unicode (lower plain_unicode (ascii ''what is covered'')) = None \<and>
   \<not> pricing_category (lower plain_unicode (ascii ''what is covered'')) \<and>
   overview_category (lower plain_unicode (ascii ''what is covered'')) \<and>
   answer_question plain_unicode (ascii ''what is covered'') =
        Inr (join [10]
          ([ascii ''We offer several types of coverage.  Here'' @ [39] @
            ascii ''s a quick overview:''] @
           map (\<lambda>(key, body). ascii ''- '' @ first_sentence body) COVERAGE_DEFINITIONS @
           [[10] @ ascii ''You can ask about any of these coverage types for more '' @
            ascii ''information or inquire about a specific plan.'']))"
  using coverage_overview_answer [of plain_unicode "ascii ''what is covered''"]
  by (simp add: covered_question)

text \<open>
  The claim as stated fails: "what coverage do you offer" is answered with a coverage
  definition, which is not the coverage overview.
\<close>

theorem coverage_overview_answer_counterexample:
  "answer_question plain_unicode (ascii ''what coverage do you offer'') =
     Inr acts_of_god_definition \<and>
   overview_answer \<noteq> Inr acts_of_god_definition"
  using overview_is_no_definition
  by (simp add: answer_question_cascade offer_question)

section \<open>The limit clauses of a plan description\<close>

text \<open>
  C5, as amended. The last line of every rendered plan description is
  "Coverage limits: ", the limit clauses of the plan joined with "; ", and ".". The clause
  of "roadside assistance" is the fixed text "Roadside assistance: service included" and
  the clause of "loss of use" is "Loss of use: reimbursed up to <formatted-amount> per
  day", both with the key in sentence case, not title case; every other clause is
  "<Title>: <formatted-amount> limit", where <Title> is the coverage key title-cased
  (CTPL in capitals).
\<close>

theorem limit_clauses_rendering:
  assumes "(name, plan) \<in> set POLICY_PLANS"
  shows "(\<forall>(cov, limit) \<in> set (limits plan). \<not> isl (format_currency limit)) \<and>
    (\<exists>head. plan_info U name =
       Inr (head @ [10] @ ascii ''Coverage limits: '' @
            join (ascii ''; '') (map (limit_clause U) (limits plan)) @ ascii ''.''))"
proof
  from table_amounts [OF assms]
  show formatted: "\<forall>(cov, limit) \<in> set (limits plan). \<not> isl (format_currency limit)"
    by (auto simp: format_currency_succeeds)
  have plan: "map_of POLICY_PLANS name = Some plan"
    using plan_names_distinct assms by (rule map_of_is_SomeI)
  from table_amounts [OF assms]
  obtain amount where amount: "format_currency (premium plan) = Inr amount"
    by (auto simp: format_currency_small)
  have loop: "limit_lines_loop U [] (limits plan) = Inr ([] @ map (limit_clause U) (limits plan))"
    using formatted by (rule limit_lines_loop_map)
  let ?head = "ascii ''**'' @ name @ ascii '' Plan**'' @ [10] @ description plan @ [10] @
      [10] @ ascii ''Included coverage: '' @
      join (ascii '', '') (map (coverage_title U) (coverage plan)) @ ascii ''.'' @ [10] @
      ascii ''Annual premium: '' @ amount @ ascii ''.''"
  have "plan_info U name =
       Inr (?head @ [10] @ ascii ''Coverage limits: '' @
            join (ascii ''; '') (map (limit_clause U) (limits plan)) @ ascii ''.'')"
    by (simp add: plan_info_def plan amount loop)
  then show "\<exists>head. plan_info U name =
       Inr (head @ [10] @ ascii ''Coverage limits: '' @
            join (ascii ''; '') (map (limit_clause U) (limits plan)) @ ascii ''.'')"
    by blast
qed

theorem limit_clauses_rendering_witness:
  "POLICY_PLANS ! 2 \<in> set POLICY_PLANS \<and>
   fst (POLICY_PLANS ! 2) = ascii ''Premium'' \<and>
   map (limit_clause plain_unicode) (limits (snd (POLICY_PLANS ! 2))) =
     [ascii ''CTPL: PHP'' @ [8239] @ ascii ''100,000 limit'',
      ascii ''Own Damage: PHP'' @ [8239] @ ascii ''800,000 limit'',
      ascii ''Acts Of God: PHP'' @ [8239] @ ascii ''600,000 limit'',
      ascii ''Personal Accident: PHP'' @ [8239] @ ascii ''200,000 limit'',
      ascii ''Malicious Mischief: PHP'' @ [8239] @ ascii ''300,000 limit'',
      ascii ''Roadside assistance: service included'',
      ascii ''Loss of use: reimbursed up to PHP'' @ [8239] @ ascii ''2,500 per day''] \<and>
   (\<exists>head. plan_info plain_unicode (ascii ''Premium'') =
       Inr (head @ [10] @ ascii ''Coverage limits: '' @
            join (ascii ''; '')
              (map (limit_clause plain_unicode) (limits (snd (POLICY_PLANS ! 2)))) @
            ascii ''.''))"
proof -
  have member: "POLICY_PLANS ! 2 \<in> set POLICY_PLANS"
    by (simp add: POLICY_PLANS_def)
  have name: "fst (POLICY_PLANS ! 2) = ascii ''Premium''"
    by (simp add: POLICY_PLANS_def)
  from member name
  have entry: "(ascii ''Premium'', snd (POLICY_PLANS ! 2)) \<in> set POLICY_PLANS"
    by (metis prod.collapse)
  have clauses: "map (limit_clause plain_unicode) (limits (snd (POLICY_PLANS ! 2))) =
     [ascii ''CTPL: PHP'' @ [8239] @ ascii ''100,000 limit'',
      ascii ''Own Damage: PHP'' @ [8239] @ ascii ''800,000 limit'',
      ascii ''Acts Of God: PHP'' @ [8239] @ ascii ''600,000 limit'',
      ascii ''Personal Accident: PHP'' @ [8239] @ ascii ''200,000 limit'',
      ascii ''Malicious Mischief: PHP'' @ [8239] @ ascii ''300,000 limit'',
      ascii ''Roadside assistance: service included'',
      ascii ''Loss of use: reimbursed up to PHP'' @ [8239] @ ascii ''2,500 per day'']"
    by (simp add: POLICY_PLANS_def limit_clause_def format_currency_table coverage_title_table)
       (simp add: ascii_def)
  from limit_clauses_rendering [OF entry, of plain_unicode] member name clauses
  show ?thesis by blast
qed

text \<open>
  The claim as stated fails: the title-cased key of the service-included case is
  "Roadside Assistance", and the Premium plan description holds
  "Roadside assistance: service included", not "Roadside Assistance: service included";
  nor does it hold "Loss Of Use: reimbursed".
\<close>

theorem limit_clauses_rendering_counterexample:
  "coverage_title plain_unicode (ascii ''roadside assistance'') = ascii ''Roadside Assistance'' \<and>
   \<not> isl (plan_info plain_unicode (ascii ''Premium'')) \<and>
   py_in (ascii ''Roadside assistance: service included'')
     (projr (plan_info plain_unicode (ascii ''Premium''))) \<and>
   \<not> py_in (ascii ''Roadside Assistance: service included'')
     (projr (plan_info plain_unicode (ascii ''Premium''))) \<and>
   \<not> py_in (ascii ''Loss Of Use: reimbursed'')
     (projr (plan_info plain_unicode (ascii ''Premium'')))"
  using premium_plan_limit_line [of plain_unicode] coverage_title_table(6) [of plain_unicode]
  by blast

section \<open>A plan lookup\<close>

text \<open>
  C6, as amended. The answer to "tell me about the Standard plan" is the rendered
  Standard plan description: it holds "Standard Plan", the premium written
  "PHP<U+202F>7,500" (with the code point U+202F, 8239, between "PHP" and the amount),
  and the coverage names "CTPL", "Own Damage" and "Acts Of God", and does not hold
  "Personal Accident".
\<close>

theorem standard_plan_answer:
  "answer_question U (ascii ''tell me about the Standard plan'') =
     plan_info U (ascii ''Standard'') \<and>
   (\<exists>s. answer_question U (ascii ''tell me about the Standard plan'') = Inr s \<and>
      py_in (ascii ''Standard Plan'') s \<and>
      py_in (ascii ''PHP'' @ [8239] @ ascii ''7,500'') s \<and>
      py_in (ascii ''CTPL'') s \<and>
      py_in (ascii ''Own Damage'') s \<and>
      py_in (ascii ''Acts Of God'') s \<and>
      \<not> py_in (ascii ''Personal Accident'') s)"
proof
  show "answer_question U (ascii ''tell me about the Standard plan'') =
      plan_info U (ascii ''Standard'')"
    by (rule standard_question_answer)
next
  obtain s where s: "plan_info U (ascii ''Standard'') = Inr s"
    using plan_info_Standard by blast
  then have "projr (plan_info U (ascii ''Standard'')) = s" by simp
  with standard_plan_contents [of U] s
  show "\<exists>s. answer_question U (ascii ''tell me about the Standard plan'') = Inr s \<and>
      py_in (ascii ''Standard Plan'') s \<and>
      py_in (ascii ''PHP'' @ [8239] @ ascii ''7,500'') s \<and>
      py_in (ascii ''CTPL'') s \<and>
      py_in (ascii ''Own Damage'') s \<and>
      py_in (ascii ''Acts Of God'') s \<and>
      \<not> py_in (ascii ''Personal Accident'') s"
    by (simp add: standard_question_answer)
qed

text \<open>
  The claim as stated fails: the description does not hold "PHP 7,500" written with
  an ASCII space.
\<close>

theorem standard_plan_answer_counterexample:
  "\<not> isl (answer_question plain_unicode (ascii ''tell me about the Standard plan'')) \<and>
   \<not> py_in (ascii ''PHP 7,500'')
     (projr (answer_question plain_unicode (ascii ''tell me about the Standard plan'')))"
  using standard_plan_contents(7) [of plain_unicode]
  by (simp add: standard_question_answer plan_info_Standard)

section \<open>The pricing answer\<close>

text \<open>
  C7, as amended. The answer to "what are your rates" is the pricing answer: the header
  line, then one line per plan in table order, "- **Basic Plan**: PHP<U+202F>1,800",
  "- **Standard Plan**: PHP<U+202F>7,500" and "- **Premium Plan**: PHP<U+202F>14,000",
  then an empty line and the hint line. Between "PHP" and the amount stands the code
  point U+202F (8239, narrow no-break space), not the ASCII space.
\<close>

theorem rates_answer:
  "answer_question U (ascii ''what are your rates'') =
     Inr (join [10]
       [ascii ''Here are the annual premiums for our available plans:'',
        ascii ''- **Basic Plan**: PHP'' @ [8239] @ ascii ''1,800'',
        ascii ''- **Standard Plan**: PHP'' @ [8239] @ ascii ''7,500'',
        ascii ''- **Premium Plan**: PHP'' @ [8239] @ ascii ''14,000'',
        [10] @ ascii ''Ask about a specific plan to see what it covers.''])"
  by (simp only: rates_question_answer pricing_answer_eval)

text \<open>
  The claim as stated fails: the answer holds no line "- **Basic Plan**: PHP 1,800"
  written with an ASCII space.
\<close>

theorem rates_answer_counterexample:
  "\<not> isl (answer_question plain_unicode (ascii ''what are your rates'')) \<and>
   \<not> py_in (ascii ''- **Basic Plan**: PHP 1,800'')
     (projr (answer_question plain_unicode (ascii ''what are your rates'')))"
  by (simp add: rates_question_answer pricing_answer_eval) (simp add: ascii_def)

section \<open>Currency formatting\<close>

text \<open>
  C8, as amended. For every integer amount from 0 to below \<open>2 ^ 53\<close>,
  \<open>format_currency\<close> returns "PHP", the code point U+202F (8239, narrow no-break space)
  and the amount in decimal digits without leading zero and without decimals, with a
  comma before every group of three digits counted from the right; in particular
  100000 gives "PHP<U+202F>100,000" and 0 gives "PHP<U+202F>0".
\<close>

theorem format_currency_renders:
  "(0 \<le> amount \<and> amount < 2 ^ 53 \<longrightarrow>
      (\<exists>body. format_currency amount = Inr (ascii ''PHP'' @ [8239] @ body) \<and>
         (\<forall>c \<in> set body. c = 44 \<or> (48 \<le> c \<and> c \<le> 57)) \<and>
         int (digits_value (filter (\<lambda>c. c \<noteq> 44) body)) = amount \<and>
         (body = ascii ''0'' \<or> (body \<noteq> [] \<and> hd body \<noteq> 44 \<and> hd body \<noteq> 48)) \<and>
         (\<forall>i < length body. (body ! i = 44) = ((length body - i) mod 4 = 0)))) \<and>
   format_currency 100000 = Inr (ascii ''PHP'' @ [8239] @ ascii ''100,000'') \<and>
   format_currency 0 = Inr (ascii ''PHP'' @ [8239] @ ascii ''0'')"
proof (intro conjI impI)
  assume range: "0 \<le> amount \<and> amount < 2 ^ 53"
  let ?n = "nat amount"
  let ?body = "thousands (decimal ?n)"
  from range have result: "format_currency amount = Inr (ascii ''PHP'' @ [8239] @ ?body)"
    by (simp add: format_currency_small)
  have characters: "\<forall>c \<in> set ?body. c = 44 \<or> (48 \<le> c \<and> c \<le> 57)"
    using thousands_set [of "decimal ?n"] decimal_digits [of _ ?n] by auto
  have "filter (\<lambda>c. c \<noteq> 44) ?body = decimal ?n"
    using decimal_no_comma by (rule thousands_filter)
  with range have "value": "int (digits_value (filter (\<lambda>c. c \<noteq> 44) ?body)) = amount"
    by (simp add: digits_value_decimal)
  have start: "?body = ascii ''0'' \<or> (?body \<noteq> [] \<and> hd ?body \<noteq> 44 \<and> hd ?body \<noteq> 48)"
  proof (cases "?n = 0")
    case True
    then show ?thesis by (simp add: decimal_zero thousands_def ascii_def)
  next
    case False
    then have "hd (decimal ?n) \<noteq> 48" by (simp add: decimal_no_leading_zero)
    moreover have "hd (decimal ?n) \<in> set (decimal ?n)"
      by (simp add: decimal_not_Nil)
    then have "hd (decimal ?n) \<noteq> 44" using decimal_no_comma by metis
    ultimately show ?thesis
      by (simp add: thousands_hd thousands_not_Nil decimal_not_Nil)
  qed
  have commas: "\<forall>i < length ?body. (?body ! i = 44) = ((length ?body - i) mod 4 = 0)"
    by (simp add: thousands_commas [OF decimal_no_comma])
  from result characters "value" start commas
  show "\<exists>body. format_currency amount = Inr (ascii ''PHP'' @ [8239] @ body) \<and>
         (\<forall>c \<in> set body. c = 44 \<or> (48 \<le> c \<and> c \<le> 57)) \<and>
         int (digits_value (filter (\<lambda>c. c \<noteq> 44) body)) = amount \<and>
         (body = ascii ''0'' \<or> (body \<noteq> [] \<and> hd body \<noteq> 44 \<and> hd body \<noteq> 48)) \<and>
         (\<forall>i < length body. (body ! i = 44) = ((length body - i) mod 4 = 0))"
    by blast
next
  show "format_currency 100000 = Inr (ascii ''PHP'' @ [8239] @ ascii ''100,000'')"
    by (rule format_currency_table)
next
  show "format_currency 0 = Inr (ascii ''PHP'' @ [8239] @ ascii ''0'')"
    by (rule format_currency_zero)
qed

theorem format_currency_renders_witness:
  "(0::int) \<le> 1234567 \<and> (1234567::int) < 2 ^ 53 \<and>
   format_currency 1234567 = Inr (ascii ''PHP'' @ [8239] @ ascii ''1,234,567'') \<and>
   (\<exists>body. format_currency 1234567 = Inr (ascii ''PHP'' @ [8239] @ body) \<and>
      int (digits_value (filter (\<lambda>c. c \<noteq> 44) body)) = 1234567)"
proof -
  have range: "(0::int) \<le> 1234567 \<and> (1234567::int) < 2 ^ 53" by simp
  with format_currency_renders [of 1234567]
  have "\<exists>body. format_currency 1234567 = Inr (ascii ''PHP'' @ [8239] @ body) \<and>
      int (digits_value (filter (\<lambda>c. c \<noteq> 44) body)) = 1234567"
    by blast
  with range format_currency_1234567 show ?thesis by blast
qed

text \<open>
  The claim as stated fails twice: the prefix ends in U+202F, not in an ASCII space, so
  100000 does not give "PHP 100,000" nor 0 "PHP 0"; and an amount of more than 53 bits is
  rounded to a float first, so \<open>2 ^ 53 + 1 = 9007199254740993\<close> is rendered as
  9,007,199,254,740,992.
\<close>

theorem format_currency_renders_counterexample:
  "format_currency 100000 \<noteq> Inr (ascii ''PHP 100,000'') \<and>
   format_currency 0 \<noteq> Inr (ascii ''PHP 0'') \<and>
   format_currency (2 ^ 53 + 1) =
     Inr (ascii ''PHP'' @ [8239] @ ascii ''9,007,199,254,740,992'')"
proof (intro conjI)
  show "format_currency 100000 \<noteq> Inr (ascii ''PHP 100,000'')"
    by (simp add: format_currency_table) (simp add: ascii_def)
  show "format_currency 0 \<noteq> Inr (ascii ''PHP 0'')"
    by (simp add: format_currency_zero) (simp add: ascii_def)
  have "(2::int) ^ 53 + 1 = 9007199254740993" by simp
  then show "format_currency (2 ^ 53 + 1) =
      Inr (ascii ''PHP'' @ [8239] @ ascii ''9,007,199,254,740,992'')"
    by (simp only: format_currency_beyond_53_bits)
qed

section \<open>The knowledge base is closed under its references\<close>

text \<open>
  C9. In the policy-plan table, every key of a plan's coverage list is a key of the
  coverage-definition table, every key of its limits is in its coverage list, and (in
  this data) every key of its coverage list has a limit.
\<close>

theorem knowledge_base_references_resolve:
  "\<forall>(name, plan) \<in> set POLICY_PLANS.
     set (coverage plan) \<subseteq> fst ` set COVERAGE_DEFINITIONS \<and>
     fst ` set (limits plan) \<subseteq> set (coverage plan) \<and>
     set (coverage plan) \<subseteq> fst ` set (limits plan)"
  by (simp add: POLICY_PLANS_def COVERAGE_DEFINITIONS_def ascii_def)

theorem knowledge_base_references_resolve_witness:
  "POLICY_PLANS ! 1 \<in> set POLICY_PLANS \<and>
   fst (POLICY_PLANS ! 1) = ascii ''Standard'' \<and>
   coverage (snd (POLICY_PLANS ! 1)) =
     [ascii ''ctpl'', ascii ''own damage'', ascii ''acts of god''] \<and>
   set (coverage (snd (POLICY_PLANS ! 1))) \<subseteq> fst ` set COVERAGE_DEFINITIONS \<and>
   fst ` set (limits (snd (POLICY_PLANS ! 1))) \<subseteq> set (coverage (snd (POLICY_PLANS ! 1))) \<and>
   set (coverage (snd (POLICY_PLANS ! 1))) \<subseteq> fst ` set (limits (snd (POLICY_PLANS ! 1)))"
proof -
  have member: "POLICY_PLANS ! 1 \<in> set POLICY_PLANS"
    by (simp add: POLICY_PLANS_def)
  have entry: "fst (POLICY_PLANS ! 1) = ascii ''Standard'' \<and>
      coverage (snd (POLICY_PLANS ! 1)) =
        [ascii ''ctpl'', ascii ''own damage'', ascii ''acts of god'']"
    by (simp add: POLICY_PLANS_def)
  from knowledge_base_references_resolve member
  have "case POLICY_PLANS ! 1 of (name, plan) \<Rightarrow>
     set (coverage plan) \<subseteq> fst ` set COVERAGE_DEFINITIONS \<and>
     fst ` set (limits plan) \<subseteq> set (coverage plan) \<and>
     set (coverage plan) \<subseteq> fst ` set (limits plan)"
    by (rule bspec)
  then show ?thesis
    using member entry by (simp add: case_prod_unfold)
qed

end
